theory Spec2Isabelle
  imports Complex_Main "HOL-Library.Product_Lexorder"
begin

section \<open>The inventory replenishment engine of \<^verbatim>\<open>analysis/inventory_optimization.py\<close>\<close>

text \<open>
  The class \<^verbatim>\<open>InventoryOptimizer\<close> holds three tables after \<^verbatim>\<open>load_data\<close>: the
  demand events (\<^verbatim>\<open>sample_data\<close>), the inventory (\<^verbatim>\<open>inventory_data\<close>) and, after
  training, one regression model per category (\<^verbatim>\<open>forecast_models\<close>). A table is a list
  of rows in index order. The methods are embedded as functions of these tables; the
  guards \<^verbatim>\<open>if self.inventory_data is None\<close> never fire on a loaded table and have no
  counterpart here.

  Numbers: a \<^verbatim>\<open>float64\<close> is a real number. The non-finite values are kept where the
  source produces them: \<^verbatim>\<open>NaN\<close> from the standard deviation of a single observation
  and from \<^verbatim>\<open>np.sqrt\<close> of a negative number is \<open>None\<close> of a \<open>real option\<close>, and the
  quotient by zero in the error metric has a value type of its own. Rounding error of
  the binary representation is not modelled.
\<close>

subsection \<open>Exceptions and early returns\<close>

datatype failure =
    IndexError      \<comment> \<open>\<^verbatim>\<open>.iloc[0]\<close> on an empty selection\<close>
  | KeyError        \<comment> \<open>a column of a frame that has none\<close>
  | ValueError      \<comment> \<open>raised by the regression library\<close>
  | Returned_None   \<comment> \<open>the method printed a message and returned \<^verbatim>\<open>None\<close>\<close>

subsection \<open>Numeric helpers\<close>

text \<open>\<^verbatim>\<open>round(x, n)\<close> on a float: the nearest multiple of \<open>10^-n\<close>, ties to the even one.\<close>

definition round_half_even :: "real \<Rightarrow> int" where
  "round_half_even x =
     (let f = \<lfloor>x\<rfloor>; d = x - of_int f
      in if d < 1/2 then f
         else if 1/2 < d then f + 1
         else if even f then f else f + 1)"

definition py_round :: "real \<Rightarrow> nat \<Rightarrow> real" where
  "py_round x n = of_int (round_half_even (x * 10 ^ n)) / 10 ^ n"

text \<open>\<^verbatim>\<open>np.sqrt\<close>: \<^verbatim>\<open>NaN\<close> below zero.\<close>

definition np_sqrt :: "real \<Rightarrow> real option" where
  "np_sqrt x = (if x < 0 then None else Some (sqrt x))"

text \<open>A comparison with \<^verbatim>\<open>NaN\<close> is false.\<close>

fun le_nan :: "real \<Rightarrow> real option \<Rightarrow> bool" where
  "le_nan x None = False"
| "le_nan x (Some y) = (x \<le> y)"

text \<open>Addition of two floats either of which may be \<^verbatim>\<open>NaN\<close>.\<close>

fun add_nan :: "real option \<Rightarrow> real option \<Rightarrow> real option" where
  "add_nan (Some x) (Some y) = Some (x + y)"
| "add_nan _ _ = None"

definition mean :: "real list \<Rightarrow> real" where
  "mean xs = sum_list xs / real (length xs)"

subsection \<open>Tables\<close>

text \<open>
  A timestamp is a number of seconds since the epoch. A demand event keeps the columns
  the engine reads.
\<close>

record demand_record =
  d_timestamp :: int
  d_category :: string
  d_demand_quantity :: real

record inventory_item =
  i_dark_store_id :: string
  i_product_name :: string
  i_category :: string
  i_current_stock :: real
  i_lead_time_hours :: real
  i_storage_cost_per_unit :: real
  i_supplier_reliability :: real

subsection \<open>\<^verbatim>\<open>calculate_optimal_stock_levels\<close>\<close>

text \<open>
  \<^verbatim>\<open>groupby('category')['demand_quantity'].agg(['mean', 'std', 'max'])\<close>: one row per
  category that occurs, looked up by category. The standard deviation is the sample one
  (\<^verbatim>\<open>ddof=1\<close>), \<^verbatim>\<open>NaN\<close> for a single observation.
\<close>

record category_stats =
  st_mean :: real
  st_std :: "real option"
  st_max :: real

definition group_values :: "demand_record list \<Rightarrow> string \<Rightarrow> real list" where
  "group_values sample c = map d_demand_quantity (filter (\<lambda>r. d_category r = c) sample)"

definition sample_std :: "real list \<Rightarrow> real option" where
  "sample_std vs =
     (if length vs < 2 then None
      else Some (sqrt (sum_list (map (\<lambda>v. (v - mean vs)\<^sup>2) vs) / real (length vs - 1))))"

definition demand_stats :: "demand_record list \<Rightarrow> string \<Rightarrow> category_stats option" where
  "demand_stats sample c =
     (let vs = group_values sample c
      in if vs = [] then None
         else Some \<lparr>st_mean = mean vs, st_std = sample_std vs, st_max = Max (set vs)\<rparr>)"

definition z_score :: "real \<Rightarrow> real" where
  "z_score service_level =
     (if service_level = 0.90 then 1.28
      else if service_level = 0.95 then 1.65
      else if service_level = 0.99 then 2.33
      else 1.65)"

record stock_level_plan =
  p_dark_store_id :: string
  p_product_name :: string
  p_category :: string
  p_current_stock :: real
  p_avg_daily_demand :: real
  p_safety_stock :: "real option"
  p_reorder_point :: "real option"
  p_optimal_max_stock :: "real option"
  p_eoq :: "real option"
  p_lead_time_hours :: real
  p_service_level :: real

text \<open>The quantities of one inventory row before they are rounded into the output row.\<close>

definition demand_std_of :: "category_stats \<Rightarrow> real" where
  "demand_std_of cat_stats =
     (case st_std cat_stats of
        Some s \<Rightarrow> (if 0 < s then s else st_mean cat_stats * 0.2)
      | None \<Rightarrow> st_mean cat_stats * 0.2)"

definition safety_stock_of :: "real \<Rightarrow> category_stats \<Rightarrow> inventory_item \<Rightarrow> real option" where
  "safety_stock_of z cat_stats row =
     map_option (\<lambda>s. z * demand_std_of cat_stats * s) (np_sqrt (i_lead_time_hours row / 24))"

definition eoq_of :: "category_stats \<Rightarrow> inventory_item \<Rightarrow> real option" where
  "eoq_of cat_stats row =
     (let avg_demand = st_mean cat_stats;
          holding_cost = i_storage_cost_per_unit row * 0.2;
          order_cost = 50;
          annual_demand = avg_demand * 365
      in if 0 < holding_cost then np_sqrt ((2 * annual_demand * order_cost) / holding_cost)
         else Some (avg_demand * 7))"

definition reorder_point_of :: "real \<Rightarrow> category_stats \<Rightarrow> inventory_item \<Rightarrow> real option" where
  "reorder_point_of z cat_stats row =
     (let avg_demand_during_lead_time = st_mean cat_stats * (i_lead_time_hours row / 24)
      in add_nan (Some avg_demand_during_lead_time) (safety_stock_of z cat_stats row))"

definition max_stock_of :: "real \<Rightarrow> category_stats \<Rightarrow> inventory_item \<Rightarrow> real option" where
  "max_stock_of z cat_stats row = add_nan (reorder_point_of z cat_stats row) (eoq_of cat_stats row)"

definition round1 :: "real option \<Rightarrow> real option" where
  "round1 v = map_option (\<lambda>x. py_round x 1) v"

definition plan_row :: "real \<Rightarrow> category_stats \<Rightarrow> inventory_item \<Rightarrow> stock_level_plan" where
  "plan_row service_level cat_stats row =
     (let z = z_score service_level
      in \<lparr>p_dark_store_id = i_dark_store_id row,
          p_product_name = i_product_name row,
          p_category = i_category row,
          p_current_stock = i_current_stock row,
          p_avg_daily_demand = py_round (st_mean cat_stats) 1,
          p_safety_stock = round1 (safety_stock_of z cat_stats row),
          p_reorder_point = round1 (reorder_point_of z cat_stats row),
          p_optimal_max_stock = round1 (max_stock_of z cat_stats row),
          p_eoq = round1 (eoq_of cat_stats row),
          p_lead_time_hours = i_lead_time_hours row,
          p_service_level = service_level\<rparr>)"

text \<open>
  The loop over the inventory rows. \<^verbatim>\<open>demand_stats[...].iloc[0]\<close> raises on a category
  without statistics, and nothing catches it: the rows collected so far are lost.
\<close>

fun plan_rows ::
  "(string \<Rightarrow> category_stats option) \<Rightarrow> real \<Rightarrow> inventory_item list \<Rightarrow> failure + stock_level_plan list"
where
  "plan_rows stats service_level [] = Inr []"
| "plan_rows stats service_level (row # rows) =
     (case stats (i_category row) of
        None \<Rightarrow> Inl IndexError
      | Some cat_stats \<Rightarrow>
          (case plan_rows stats service_level rows of
             Inl e \<Rightarrow> Inl e
           | Inr optimal_levels \<Rightarrow> Inr (plan_row service_level cat_stats row # optimal_levels)))"

definition calculate_optimal_stock_levels ::
  "demand_record list \<Rightarrow> inventory_item list \<Rightarrow> real \<Rightarrow> failure + stock_level_plan list"
where
  "calculate_optimal_stock_levels sample_data inventory_data service_level =
     plan_rows (demand_stats sample_data) service_level inventory_data"

subsection \<open>\<^verbatim>\<open>forecast_demand\<close>\<close>

text \<open>
  \<^verbatim>\<open>timestamp.hour\<close> and \<^verbatim>\<open>timestamp.weekday()\<close> (Monday is 0; the epoch was a
  Thursday).
\<close>

definition dt_hour :: "int \<Rightarrow> int" where
  "dt_hour ts = (ts div 3600) mod 24"

definition dt_weekday :: "int \<Rightarrow> int" where
  "dt_weekday ts = (ts div 86400 + 3) mod 7"

definition timedelta_hours :: "int \<Rightarrow> int" where
  "timedelta_hours h = 3600 * h"

record forecast_point =
  f_timestamp :: int
  f_hour :: int
  f_category :: string
  f_predicted_demand :: real

text \<open>\<^verbatim>\<open>.tail(n)\<close>: the last \<open>n\<close> rows.\<close>

definition tail :: "nat \<Rightarrow> 'a list \<Rightarrow> 'a list" where
  "tail n xs = drop (length xs - n) xs"

text \<open>
  The feature vector of one future hour, in the order of \<^verbatim>\<open>feature_columns\<close>. The lag
  features are read from the last rows of the category in table order and are the same
  for every hour of the horizon.
\<close>

definition future_features :: "demand_record list \<Rightarrow> string \<Rightarrow> int \<Rightarrow> real list" where
  "future_features sample_data category ts =
     (let recent_data =
            map d_demand_quantity (tail 5 (filter (\<lambda>r. d_category r = category) sample_data));
          hour = dt_hour ts;
          day_of_week = dt_weekday ts
      in [sin (2 * pi * of_int hour / 24),
          cos (2 * pi * of_int hour / 24),
          sin (2 * pi * of_int day_of_week / 7),
          cos (2 * pi * of_int day_of_week / 7),
          (if 0 < length recent_data then last recent_data else 10),
          (if 1 < length recent_data then recent_data ! (length recent_data - 2) else 10),
          (if 3 \<le> length recent_data then mean (tail 3 recent_data) else 10)])"

text \<open>
  \<^verbatim>\<open>forecast_models\<close> is the dictionary of the trained categories in insertion order;
  of a model the embedding keeps the prediction for a raw feature vector (the scaler
  followed by the regression). An empty demand table has no last timestamp: the
  features of a future hour are then \<^verbatim>\<open>NaN\<close> and the regression refuses them.
\<close>

type_synonym predictor = "real list \<Rightarrow> real"

definition last_timestamp :: "demand_record list \<Rightarrow> int" where
  "last_timestamp sample_data = Max (set (map d_timestamp sample_data))"

definition future_timestamps :: "demand_record list \<Rightarrow> int \<Rightarrow> int list" where
  "future_timestamps sample_data hours_ahead =
     map (\<lambda>i. last_timestamp sample_data + timedelta_hours i) [1..hours_ahead]"

definition forecast_point_of ::
  "demand_record list \<Rightarrow> string \<Rightarrow> predictor \<Rightarrow> int \<Rightarrow> forecast_point"
where
  "forecast_point_of sample_data category model ts =
     (let predicted_demand = max 0 (model (future_features sample_data category ts))
      in \<lparr>f_timestamp = ts,
          f_hour = dt_hour ts,
          f_category = category,
          f_predicted_demand = py_round predicted_demand 1\<rparr>)"

definition forecast_demand ::
  "(string \<times> predictor) list \<Rightarrow> demand_record list \<Rightarrow> int \<Rightarrow> failure + forecast_point list"
where
  "forecast_demand forecast_models sample_data hours_ahead =
     (if forecast_models = [] then Inl Returned_None
      else if sample_data = [] \<and> 1 \<le> hours_ahead then Inl ValueError
      else Inr (concat (map (\<lambda>(category, model).
                  map (forecast_point_of sample_data category model)
                    (future_timestamps sample_data hours_ahead))
                forecast_models)))"

subsection \<open>\<^verbatim>\<open>generate_restocking_schedule\<close>\<close>

datatype urgency = Critical | High | Medium | Low

fun urgency_order :: "urgency \<Rightarrow> int" where
  "urgency_order Critical = 4"
| "urgency_order High = 3"
| "urgency_order Medium = 2"
| "urgency_order Low = 1"

record restock_action =
  a_dark_store_id :: string
  a_product_name :: string
  a_category :: string
  a_current_stock :: real
  a_predicted_demand_24h :: real
  a_projected_stock_24h :: real
  a_reorder_point :: "real option"
  a_needs_restock :: bool
  a_urgency :: urgency
  a_suggested_order_qty :: "real option"
  a_lead_time_hours :: real
  a_supplier_reliability :: real

text \<open>
  The forecast rows kept for the aggregation: those up to 24 hours after the earliest
  forecast timestamp, both ends included.
\<close>

definition next_24h_demand :: "forecast_point list \<Rightarrow> forecast_point list" where
  "next_24h_demand forecasts =
     filter (\<lambda>f. f_timestamp f \<le> Min (set (map f_timestamp forecasts)) + timedelta_hours 24)
       forecasts"

text \<open>\<^verbatim>\<open>groupby('category')['predicted_demand'].sum()\<close>, looked up by category.\<close>

definition demand_summary :: "forecast_point list \<Rightarrow> string \<Rightarrow> real option" where
  "demand_summary rows c =
     (let vs = map f_predicted_demand (filter (\<lambda>f. f_category f = c) rows)
      in if vs = [] then None else Some (sum_list vs))"

definition predicted_demand_24h_of :: "forecast_point list \<Rightarrow> string \<Rightarrow> real" where
  "predicted_demand_24h_of forecasts c =
     (case demand_summary (next_24h_demand forecasts) c of Some v \<Rightarrow> v | None \<Rightarrow> 0)"

definition urgency_of :: "real \<Rightarrow> real option \<Rightarrow> urgency" where
  "urgency_of projected_stock_24h reorder_point =
     (if projected_stock_24h \<le> 0 then Critical
      else if le_nan projected_stock_24h (map_option (\<lambda>r. r * 0.5) reorder_point) then High
      else if le_nan projected_stock_24h reorder_point then Medium
      else Low)"

definition suggested_order_of :: "bool \<Rightarrow> real option \<Rightarrow> real \<Rightarrow> real option" where
  "suggested_order_of needs_restock max_stock current_stock =
     (if needs_restock then map_option (\<lambda>m. m - current_stock) max_stock else Some 0)"

text \<open>
  One pass of the loop over the inventory: \<open>None\<close> is the \<^verbatim>\<open>continue\<close> of an item
  without a plan. The plan is the first one of the item's category and store.
\<close>

definition restock_row ::
  "forecast_point list \<Rightarrow> stock_level_plan list \<Rightarrow> inventory_item \<Rightarrow> restock_action option"
where
  "restock_row forecasts optimal_levels inventory_row =
     (let category = i_category inventory_row;
          dark_store = i_dark_store_id inventory_row;
          current_stock = i_current_stock inventory_row
      in case find (\<lambda>p. p_category p = category \<and> p_dark_store_id p = dark_store) optimal_levels of
           None \<Rightarrow> None
         | Some optimal_data \<Rightarrow>
             let reorder_point = p_reorder_point optimal_data;
                 max_stock = p_optimal_max_stock optimal_data;
                 predicted_demand_24h = predicted_demand_24h_of forecasts category;
                 projected_stock_24h = current_stock - predicted_demand_24h;
                 needs_restock = le_nan projected_stock_24h reorder_point;
                 suggested_order = suggested_order_of needs_restock max_stock current_stock
             in Some \<lparr>a_dark_store_id = dark_store,
                      a_product_name = i_product_name inventory_row,
                      a_category = category,
                      a_current_stock = current_stock,
                      a_predicted_demand_24h = py_round predicted_demand_24h 1,
                      a_projected_stock_24h = py_round projected_stock_24h 1,
                      a_reorder_point = round1 reorder_point,
                      a_needs_restock = needs_restock,
                      a_urgency = urgency_of projected_stock_24h reorder_point,
                      a_suggested_order_qty = round1 suggested_order,
                      a_lead_time_hours = i_lead_time_hours inventory_row,
                      a_supplier_reliability = i_supplier_reliability inventory_row\<rparr>)"

text \<open>
  \<^verbatim>\<open>sort_values(['urgency_score', 'projected_stock_24h'], ascending=[False, True])\<close>: a
  stable sort on the pair of the negated score and the projected stock column.
\<close>

definition sort_values :: "restock_action list \<Rightarrow> restock_action list" where
  "sort_values schedule =
     sort_key (\<lambda>a. (- urgency_order (a_urgency a), a_projected_stock_24h a)) schedule"

text \<open>
  The method: forecasts first, then the stock levels at the default service level. A
  frame built from no rows has no columns, so reading \<^verbatim>\<open>'timestamp'\<close> of an empty
  forecast or \<^verbatim>\<open>'urgency'\<close> of an empty schedule raises.
\<close>

definition generate_restocking_schedule ::
  "(string \<times> predictor) list \<Rightarrow> demand_record list \<Rightarrow> inventory_item list \<Rightarrow> int
     \<Rightarrow> failure + restock_action list"
where
  "generate_restocking_schedule forecast_models sample_data inventory_data forecast_horizon =
     (case forecast_demand forecast_models sample_data forecast_horizon of
        Inl e \<Rightarrow> Inl e
      | Inr forecasts \<Rightarrow>
          (case calculate_optimal_stock_levels sample_data inventory_data 0.95 of
             Inl e \<Rightarrow> Inl e
           | Inr optimal_levels \<Rightarrow>
               if forecasts = [] then Inl KeyError
               else
                 let restocking_schedule =
                       List.map_filter (restock_row forecasts optimal_levels) inventory_data
                 in if restocking_schedule = [] then Inl KeyError
                    else Inr (sort_values restocking_schedule)))"

subsection \<open>\<^verbatim>\<open>calculate_inventory_costs\<close>\<close>

text \<open>\<^verbatim>\<open>dict(zip(...))\<close> of the mean demand by category.\<close>

definition demand_dict :: "demand_record list \<Rightarrow> string \<Rightarrow> real option" where
  "demand_dict sample_data c =
     (let vs = group_values sample_data c in if vs = [] then None else Some (mean vs))"

text \<open>
  The daily holding cost of a row. The product is that of the numbers: two integer
  columns whose product leaves the 64-bit range would wrap in the source, and no
  statement below is made of such a table.
\<close>

definition holding_cost_of :: "inventory_item \<Rightarrow> real" where
  "holding_cost_of row = (i_current_stock row * i_storage_cost_per_unit row * 0.2) / 365"

definition stockout_cost_of :: "(string \<Rightarrow> real option) \<Rightarrow> inventory_item \<Rightarrow> real" where
  "stockout_cost_of dict row =
     (let avg_demand = (case dict (i_category row) of Some m \<Rightarrow> m | None \<Rightarrow> 10);
          stockout_probability =
            (if 0 < avg_demand then max 0 ((avg_demand - i_current_stock row) / avg_demand) else 0)
      in stockout_probability * avg_demand * 5)"

definition stockout_costs :: "demand_record list \<Rightarrow> inventory_item list \<Rightarrow> real list" where
  "stockout_costs sample_data inventory_data =
     map (stockout_cost_of (demand_dict sample_data)) inventory_data"

definition total_cost_of :: "demand_record list \<Rightarrow> inventory_item \<Rightarrow> real" where
  "total_cost_of sample_data row =
     holding_cost_of row + stockout_cost_of (demand_dict sample_data) row"

record cost_analysis =
  total_holding_cost_daily :: real
  total_stockout_cost_daily :: real
  total_inventory_cost_daily :: real
  cost_by_category :: "string \<Rightarrow> real option"
  cost_by_store :: "string \<Rightarrow> real option"

text \<open>\<^verbatim>\<open>groupby(key)['total_cost'].sum().round(2).to_dict()\<close>.\<close>

definition cost_by ::
  "(inventory_item \<Rightarrow> string) \<Rightarrow> demand_record list \<Rightarrow> inventory_item list \<Rightarrow> string
     \<Rightarrow> real option"
where
  "cost_by key sample_data inventory_data k =
     (let rows = filter (\<lambda>row. key row = k) inventory_data
      in if rows = [] then None
         else Some (py_round (sum_list (map (total_cost_of sample_data) rows)) 2))"

definition calculate_inventory_costs :: "demand_record list \<Rightarrow> inventory_item list \<Rightarrow> cost_analysis"
where
  "calculate_inventory_costs sample_data inventory_data =
     \<lparr>total_holding_cost_daily = py_round (sum_list (map holding_cost_of inventory_data)) 2,
      total_stockout_cost_daily = py_round (sum_list (stockout_costs sample_data inventory_data)) 2,
      total_inventory_cost_daily =
        py_round (sum_list (map (total_cost_of sample_data) inventory_data)) 2,
      cost_by_category = cost_by i_category sample_data inventory_data,
      cost_by_store = cost_by i_dark_store_id sample_data inventory_data\<rparr>"

subsection \<open>\<^verbatim>\<open>create_demand_features\<close>\<close>

record feature_row =
  x_timestamp :: int
  x_category :: string
  x_demand_quantity :: real
  x_hour_sin :: real
  x_hour_cos :: real
  x_day_sin :: real
  x_day_cos :: real
  x_demand_lag_1 :: "real option"
  x_demand_lag_2 :: "real option"
  x_demand_ma_3 :: "real option"

text \<open>\<^verbatim>\<open>.unique()\<close>: the values in order of first appearance.\<close>

definition unique :: "'a list \<Rightarrow> 'a list" where
  "unique xs = rev (remdups (rev xs))"

text \<open>\<^verbatim>\<open>.shift(k)\<close> and \<^verbatim>\<open>.rolling(window=3).mean()\<close> of a series.\<close>

definition shift :: "nat \<Rightarrow> real list \<Rightarrow> real option list" where
  "shift k xs = take (length xs) (replicate k None @ map Some xs)"

definition rolling_mean_3 :: "real list \<Rightarrow> real option list" where
  "rolling_mean_3 xs =
     map (\<lambda>j. if j < 2 then None else Some ((xs ! (j - 2) + xs ! (j - 1) + xs ! j) / 3))
       [0..<length xs]"

text \<open>
  The rows of one category as positions in the table, sorted by timestamp. The sort is
  taken to be stable.
\<close>

definition category_index :: "demand_record list \<Rightarrow> string \<Rightarrow> nat list" where
  "category_index data category =
     sort_key (\<lambda>i. d_timestamp (data ! i))
       (filter (\<lambda>i. d_category (data ! i) = category) [0..<length data])"

definition category_demand :: "demand_record list \<Rightarrow> string \<Rightarrow> real list" where
  "category_demand data category =
     map (\<lambda>i. d_demand_quantity (data ! i)) (category_index data category)"

text \<open>
  \<^verbatim>\<open>data.loc[data['category'] == category, col] = category_data[col]\<close>: the values go
  to the rows they were computed for; the other rows of the column keep what they had.
\<close>

definition assign_column :: "'a option list \<Rightarrow> nat list \<Rightarrow> 'a option list \<Rightarrow> 'a option list" where
  "assign_column col idx vals = fold (\<lambda>(i, v) c. c[i := v]) (zip idx vals) col"

text \<open>The three lag columns after the loop over the categories, before any filling.\<close>

definition lag_columns ::
  "demand_record list \<Rightarrow> real option list \<times> real option list \<times> real option list"
where
  "lag_columns data =
     fold (\<lambda>category (lag_1, lag_2, ma_3).
             let idx = category_index data category;
                 dq = category_demand data category
             in (assign_column lag_1 idx (shift 1 dq),
                 assign_column lag_2 idx (shift 2 dq),
                 assign_column ma_3 idx (rolling_mean_3 dq)))
       (unique (map d_category data))
       (replicate (length data) None, replicate (length data) None,
        replicate (length data) None)"

text \<open>
  \<^verbatim>\<open>fillna(method='bfill')\<close> and \<^verbatim>\<open>fillna(method='ffill')\<close> on a column of the whole
  frame, in index order.
\<close>

fun bfill :: "'a option list \<Rightarrow> 'a option list" where
  "bfill [] = []"
| "bfill (Some v # xs) = Some v # bfill xs"
| "bfill (None # xs) = (case bfill xs of [] \<Rightarrow> None | y # _ \<Rightarrow> y) # bfill xs"

fun ffill_from :: "'a option \<Rightarrow> 'a option list \<Rightarrow> 'a option list" where
  "ffill_from prev [] = []"
| "ffill_from prev (Some v # xs) = Some v # ffill_from (Some v) xs"
| "ffill_from prev (None # xs) = prev # ffill_from prev xs"

definition ffill :: "'a option list \<Rightarrow> 'a option list" where
  "ffill xs = ffill_from None xs"

definition fillna_bfill_ffill :: "'a option list \<Rightarrow> 'a option list" where
  "fillna_bfill_ffill col = ffill (bfill col)"

definition create_demand_features :: "demand_record list \<Rightarrow> feature_row list" where
  "create_demand_features data =
     (case lag_columns data of (lag_1, lag_2, ma_3) \<Rightarrow>
        let lag_1' = fillna_bfill_ffill lag_1;
            lag_2' = fillna_bfill_ffill lag_2;
            ma_3' = fillna_bfill_ffill ma_3
        in map (\<lambda>i. let r = data ! i;
                         hour = dt_hour (d_timestamp r);
                         day_of_week = dt_weekday (d_timestamp r)
                     in \<lparr>x_timestamp = d_timestamp r,
                         x_category = d_category r,
                         x_demand_quantity = d_demand_quantity r,
                         x_hour_sin = sin (2 * pi * of_int hour / 24),
                         x_hour_cos = cos (2 * pi * of_int hour / 24),
                         x_day_sin = sin (2 * pi * of_int day_of_week / 7),
                         x_day_cos = cos (2 * pi * of_int day_of_week / 7),
                         x_demand_lag_1 = lag_1' ! i,
                         x_demand_lag_2 = lag_2' ! i,
                         x_demand_ma_3 = ma_3' ! i\<rparr>)
             [0..<length data])"

text \<open>
  For comparison with the filling above: the unfilled lag series of one category in its
  chronological order, and the first value a series has.
\<close>

definition category_lag_1 :: "demand_record list \<Rightarrow> string \<Rightarrow> real option list" where
  "category_lag_1 data category = shift 1 (category_demand data category)"

definition first_available :: "'a option list \<Rightarrow> 'a option" where
  "first_available xs = (case filter (\<lambda>x. x \<noteq> None) xs of [] \<Rightarrow> None | v # _ \<Rightarrow> v)"

text \<open>
  Likewise the value a position of a column takes when the
  whole column is filled backwards and then forwards, namely the first value at or
  below the position, or else the last value above it.
\<close>

definition fill_value :: "'a option list \<Rightarrow> nat \<Rightarrow> 'a option" where
  "fill_value col i =
     (case first_available (drop i col) of
        Some v \<Rightarrow> Some v
      | None \<Rightarrow> first_available (rev (take i col)))"

subsection \<open>\<^verbatim>\<open>train_demand_forecasting_models\<close>\<close>

text \<open>
  Values of the error metric, which divides by the observed demand: a quotient by zero
  is infinite, or \<^verbatim>\<open>NaN\<close> when the numerator is zero too.
\<close>

datatype npfloat = Finite real | PosInf | NaN

definition abs_pct_error :: "real \<Rightarrow> real \<Rightarrow> npfloat" where
  "abs_pct_error y_test y_pred =
     (if y_test = 0 then (if y_test - y_pred = 0 then NaN else PosInf)
      else Finite \<bar>(y_test - y_pred) / y_test\<bar>)"

fun finite_values :: "npfloat list \<Rightarrow> real list" where
  "finite_values [] = []"
| "finite_values (Finite r # vs) = r # finite_values vs"
| "finite_values (_ # vs) = finite_values vs"

text \<open>\<^verbatim>\<open>np.mean\<close> of a series skips \<^verbatim>\<open>NaN\<close>; of nothing it is \<^verbatim>\<open>NaN\<close>.\<close>

definition np_mean :: "npfloat list \<Rightarrow> npfloat" where
  "np_mean vs =
     (let ws = filter (\<lambda>v. v \<noteq> NaN) vs
      in if ws = [] then NaN
         else if PosInf \<in> set ws then PosInf
         else Finite (mean (finite_values ws)))"

fun np_scale_round :: "npfloat \<Rightarrow> real \<Rightarrow> nat \<Rightarrow> npfloat" where
  "np_scale_round (Finite r) k n = Finite (py_round (r * k) n)"
| "np_scale_round PosInf k n = PosInf"
| "np_scale_round NaN k n = NaN"

record performance =
  MAE :: real
  RMSE :: real
  MAPE :: npfloat

text \<open>The feature matrix of a category: its rows by timestamp, without those that miss a value.\<close>

definition feature_vector :: "feature_row \<Rightarrow> real list option" where
  "feature_vector r =
     (case (x_demand_lag_1 r, x_demand_lag_2 r, x_demand_ma_3 r) of
        (Some l1, Some l2, Some m3) \<Rightarrow>
          Some [x_hour_sin r, x_hour_cos r, x_day_sin r, x_day_cos r, l1, l2, m3]
      | _ \<Rightarrow> None)"

definition category_xy :: "feature_row list \<Rightarrow> string \<Rightarrow> (real list \<times> real) list" where
  "category_xy data_with_features category =
     List.map_filter (\<lambda>r. map_option (\<lambda>x. (x, x_demand_quantity r)) (feature_vector r))
       (sort_key x_timestamp (filter (\<lambda>r. x_category r = category) data_with_features))"

definition split_idx :: "nat \<Rightarrow> nat" where
  "split_idx n = nat \<lfloor>real n * 0.8\<rfloor>"

text \<open>
  The regression library is a parameter: \<open>fit X_train y_train\<close> stands for the scaler
  and the linear model fitted to the training split, as the prediction it makes for a
  raw feature vector. What the embedding keeps of its input checks is that it refuses an
  empty training split.
\<close>

definition evaluate :: "real list \<Rightarrow> real list \<Rightarrow> performance" where
  "evaluate y_test y_pred =
     (let mae = mean (map (\<lambda>(t, p). \<bar>t - p\<bar>) (zip y_test y_pred));
          mse = mean (map (\<lambda>(t, p). (t - p)\<^sup>2) (zip y_test y_pred));
          rmse = sqrt mse;
          mape = np_mean (map (\<lambda>(t, p). abs_pct_error t p) (zip y_test y_pred))
      in \<lparr>MAE = py_round mae 2, RMSE = py_round rmse 2, MAPE = np_scale_round mape 100 2\<rparr>)"

definition train_category ::
  "(real list list \<Rightarrow> real list \<Rightarrow> predictor) \<Rightarrow> (real list \<times> real) list
     \<Rightarrow> failure + predictor \<times> performance"
where
  "train_category fit xy =
     (let X = map fst xy; y = map snd xy;
          k = split_idx (length X);
          X_train = take k X; X_test = drop k X;
          y_train = take k y; y_test = drop k y
      in if X_train = [] then Inl ValueError
         else let model = fit X_train y_train;
                  y_pred = map model X_test
              in Inr (model, evaluate y_test y_pred))"

fun train_categories ::
  "(real list list \<Rightarrow> real list \<Rightarrow> predictor) \<Rightarrow> feature_row list \<Rightarrow> string list
     \<Rightarrow> failure + (string \<times> predictor \<times> performance) list"
where
  "train_categories fit data_with_features [] = Inr []"
| "train_categories fit data_with_features (category # rest) =
     (case train_category fit (category_xy data_with_features category) of
        Inl e \<Rightarrow> Inl e
      | Inr trained \<Rightarrow>
          (case train_categories fit data_with_features rest of
             Inl e \<Rightarrow> Inl e
           | Inr models \<Rightarrow> Inr ((category, trained) # models)))"

text \<open>
  The result pairs every trained category with its model and its reported metrics:
  \<^verbatim>\<open>self.forecast_models\<close> and the returned \<^verbatim>\<open>models_performance\<close> in one list.
\<close>

definition train_demand_forecasting_models ::
  "(real list list \<Rightarrow> real list \<Rightarrow> predictor) \<Rightarrow> demand_record list
     \<Rightarrow> failure + (string \<times> predictor \<times> performance) list"
where
  "train_demand_forecasting_models fit sample_data =
     (let data_with_features = create_demand_features sample_data
      in train_categories fit data_with_features (unique (map x_category data_with_features)))"

text \<open>The dictionary the method returns: the metrics by category.\<close>

definition models_performance ::
  "(real list list \<Rightarrow> real list \<Rightarrow> predictor) \<Rightarrow> demand_record list
     \<Rightarrow> failure + (string \<times> performance) list"
where
  "models_performance fit sample_data =
     (case train_demand_forecasting_models fit sample_data of
        Inl e \<Rightarrow> Inl e
      | Inr models \<Rightarrow> Inr (map (\<lambda>(category, model, perf). (category, perf)) models))"

text \<open>
  The held-out rows of a category, features with observed demand, and the held-out
  observed demands alone: \<^verbatim>\<open>X_test\<close> with \<^verbatim>\<open>y_test\<close>, and \<^verbatim>\<open>y_test\<close>.
\<close>

definition held_out :: "(real list \<times> real) list \<Rightarrow> (real list \<times> real) list" where
  "held_out xy = drop (split_idx (length xy)) xy"

definition y_test_of :: "(real list \<times> real) list \<Rightarrow> real list" where
  "y_test_of xy = drop (split_idx (length xy)) (map snd xy)"

text \<open>
  A least-squares fit to a constant target predicts that constant; the mean of the
  training target stands for the library where a concrete run is evaluated.
\<close>

definition fit_mean :: "real list list \<Rightarrow> real list \<Rightarrow> predictor" where
  "fit_mean X_train y_train = (\<lambda>x. mean y_train)"

subsection \<open>Concrete tables\<close>

text \<open>Four hourly observations of one category: mean \<open>1.25\<close>, standard deviation \<open>0.5\<close>.\<close>

definition dairy :: "demand_record list" where
  "dairy =
     [\<lparr>d_timestamp = 0, d_category = ''Dairy'', d_demand_quantity = 1\<rparr>,
      \<lparr>d_timestamp = 3600, d_category = ''Dairy'', d_demand_quantity = 1\<rparr>,
      \<lparr>d_timestamp = 7200, d_category = ''Dairy'', d_demand_quantity = 1\<rparr>,
      \<lparr>d_timestamp = 10800, d_category = ''Dairy'', d_demand_quantity = 2\<rparr>]"

definition milk :: inventory_item where
  "milk = \<lparr>i_dark_store_id = ''DS1'', i_product_name = ''Milk'', i_category = ''Dairy'',
            i_current_stock = 5, i_lead_time_hours = 24, i_storage_cost_per_unit = 0,
            i_supplier_reliability = 1\<rparr>"

definition saffron :: inventory_item where
  "saffron = \<lparr>i_dark_store_id = ''DS1'', i_product_name = ''Saffron'', i_category = ''Spices'',
               i_current_stock = 3, i_lead_time_hours = 12, i_storage_cost_per_unit = 2,
               i_supplier_reliability = 1\<rparr>"

definition milk_plan :: stock_level_plan where
  "milk_plan =
     \<lparr>p_dark_store_id = ''DS1'', p_product_name = ''Milk'', p_category = ''Dairy'',
      p_current_stock = 5, p_avg_daily_demand = 1.2, p_safety_stock = Some 0.8,
      p_reorder_point = Some 2.1, p_optimal_max_stock = Some 10.8, p_eoq = Some 8.8,
      p_lead_time_hours = 24, p_service_level = 0.95\<rparr>"

text \<open>A model that predicts one unit for every hour, and further items of the same store.\<close>

definition unit_model :: "(string \<times> predictor) list" where
  "unit_model = [(''Dairy'', \<lambda>x. 1)]"

definition butter :: inventory_item where
  "butter = \<lparr>i_dark_store_id = ''DS1'', i_product_name = ''Butter'', i_category = ''Dairy'',
              i_current_stock = 40, i_lead_time_hours = 24, i_storage_cost_per_unit = 0,
              i_supplier_reliability = 1\<rparr>"

definition paneer :: inventory_item where
  "paneer = \<lparr>i_dark_store_id = ''DS1'', i_product_name = ''Paneer'', i_category = ''Dairy'',
              i_current_stock = 45, i_lead_time_hours = 24, i_storage_cost_per_unit = 0,
              i_supplier_reliability = 1\<rparr>"

definition ghee :: inventory_item where
  "ghee = \<lparr>i_dark_store_id = ''DS1'', i_product_name = ''Ghee'', i_category = ''Dairy'',
            i_current_stock = 26, i_lead_time_hours = 24, i_storage_cost_per_unit = 0,
            i_supplier_reliability = 1\<rparr>"

definition milk_action :: restock_action where
  "milk_action =
     \<lparr>a_dark_store_id = ''DS1'', a_product_name = ''Milk'', a_category = ''Dairy'',
      a_current_stock = 5, a_predicted_demand_24h = 25, a_projected_stock_24h = - 20,
      a_reorder_point = Some 2.1, a_needs_restock = True, a_urgency = Critical,
      a_suggested_order_qty = Some 5.8, a_lead_time_hours = 24, a_supplier_reliability = 1\<rparr>"

definition butter_action :: restock_action where
  "butter_action =
     \<lparr>a_dark_store_id = ''DS1'', a_product_name = ''Butter'', a_category = ''Dairy'',
      a_current_stock = 40, a_predicted_demand_24h = 25, a_projected_stock_24h = 15,
      a_reorder_point = Some 2.1, a_needs_restock = False, a_urgency = Low,
      a_suggested_order_qty = Some 0, a_lead_time_hours = 24, a_supplier_reliability = 1\<rparr>"

definition paneer_action :: restock_action where
  "paneer_action =
     \<lparr>a_dark_store_id = ''DS1'', a_product_name = ''Paneer'', a_category = ''Dairy'',
      a_current_stock = 45, a_predicted_demand_24h = 25, a_projected_stock_24h = 20,
      a_reorder_point = Some 2.1, a_needs_restock = False, a_urgency = Low,
      a_suggested_order_qty = Some 0, a_lead_time_hours = 24, a_supplier_reliability = 1\<rparr>"

definition ghee_action :: restock_action where
  "ghee_action =
     \<lparr>a_dark_store_id = ''DS1'', a_product_name = ''Ghee'', a_category = ''Dairy'',
      a_current_stock = 26, a_predicted_demand_24h = 25, a_projected_stock_24h = 1,
      a_reorder_point = Some 2.1, a_needs_restock = True, a_urgency = High,
      a_suggested_order_qty = Some (- 15.2), a_lead_time_hours = 24, a_supplier_reliability = 1\<rparr>"

text \<open>
  A category with mean demand \<open>17\<close> and standard deviation \<open>20\<close>: with a lead time of a
  day its reorder point is \<open>17 + 1.65 \<sqdot> 20 = 50\<close>.
\<close>

definition snacks :: "demand_record list" where
  "snacks =
     [\<lparr>d_timestamp = 0, d_category = ''Snacks'', d_demand_quantity = 7\<rparr>,
      \<lparr>d_timestamp = 3600, d_category = ''Snacks'', d_demand_quantity = 7\<rparr>,
      \<lparr>d_timestamp = 7200, d_category = ''Snacks'', d_demand_quantity = 7\<rparr>,
      \<lparr>d_timestamp = 10800, d_category = ''Snacks'', d_demand_quantity = 47\<rparr>]"

definition zero_model :: "(string \<times> predictor) list" where
  "zero_model = [(''Snacks'', \<lambda>x. 0)]"

definition chips :: inventory_item where
  "chips = \<lparr>i_dark_store_id = ''DS2'', i_product_name = ''Chips'', i_category = ''Snacks'',
             i_current_stock = 50, i_lead_time_hours = 24, i_storage_cost_per_unit = 0,
             i_supplier_reliability = 1\<rparr>"

definition chips_action :: restock_action where
  "chips_action =
     \<lparr>a_dark_store_id = ''DS2'', a_product_name = ''Chips'', a_category = ''Snacks'',
      a_current_stock = 50, a_predicted_demand_24h = 0, a_projected_stock_24h = 50,
      a_reorder_point = Some 50, a_needs_restock = True, a_urgency = Medium,
      a_suggested_order_qty = Some 119, a_lead_time_hours = 24, a_supplier_reliability = 1\<rparr>"

text \<open>Two categories observed at the same two hours, the rows in order of time.\<close>

definition interleaved :: "demand_record list" where
  "interleaved =
     [\<lparr>d_timestamp = 0, d_category = ''Dairy'', d_demand_quantity = 5\<rparr>,
      \<lparr>d_timestamp = 0, d_category = ''Snacks'', d_demand_quantity = 7\<rparr>,
      \<lparr>d_timestamp = 3600, d_category = ''Dairy'', d_demand_quantity = 6\<rparr>,
      \<lparr>d_timestamp = 3600, d_category = ''Snacks'', d_demand_quantity = 9\<rparr>]"

text \<open>
  Three hourly observations of one category, and five of which the last found no
  demand.
\<close>

definition short_series :: "demand_record list" where
  "short_series =
     [\<lparr>d_timestamp = 0, d_category = ''Dairy'', d_demand_quantity = 1\<rparr>,
      \<lparr>d_timestamp = 3600, d_category = ''Dairy'', d_demand_quantity = 1\<rparr>,
      \<lparr>d_timestamp = 7200, d_category = ''Dairy'', d_demand_quantity = 1\<rparr>]"

definition sold_out :: "demand_record list" where
  "sold_out =
     [\<lparr>d_timestamp = 0, d_category = ''Dairy'', d_demand_quantity = 10\<rparr>,
      \<lparr>d_timestamp = 3600, d_category = ''Dairy'', d_demand_quantity = 10\<rparr>,
      \<lparr>d_timestamp = 7200, d_category = ''Dairy'', d_demand_quantity = 10\<rparr>,
      \<lparr>d_timestamp = 10800, d_category = ''Dairy'', d_demand_quantity = 10\<rparr>,
      \<lparr>d_timestamp = 14400, d_category = ''Dairy'', d_demand_quantity = 0\<rparr>]"

definition single_observation :: "demand_record list" where
  "single_observation = [\<lparr>d_timestamp = 0, d_category = ''Dairy'', d_demand_quantity = 1\<rparr>]"

text \<open>
  An item whose stock has two decimals: against a forecast of 25 its projected stock is
  \<open>2.14\<close>, shown as \<open>2.1\<close>.
\<close>

definition curd :: inventory_item where
  "curd = \<lparr>i_dark_store_id = ''DS1'', i_product_name = ''Curd'', i_category = ''Dairy'',
            i_current_stock = 27.14, i_lead_time_hours = 24, i_storage_cost_per_unit = 0,
            i_supplier_reliability = 1\<rparr>"

definition curd_action :: restock_action where
  "curd_action =
     \<lparr>a_dark_store_id = ''DS1'', a_product_name = ''Curd'', a_category = ''Dairy'',
      a_current_stock = 27.14, a_predicted_demand_24h = 25, a_projected_stock_24h = 2.1,
      a_reorder_point = Some 2.1, a_needs_restock = False, a_urgency = Low,
      a_suggested_order_qty = Some 0, a_lead_time_hours = 24, a_supplier_reliability = 1\<rparr>"

text \<open>An item of a category without demand data, with a holding cost of \<open>0.8\<close> a day.\<close>

definition truffle :: inventory_item where
  "truffle = \<lparr>i_dark_store_id = ''DS3'', i_product_name = ''Truffle'', i_category = ''Gourmet'',
               i_current_stock = 4, i_lead_time_hours = 48, i_storage_cost_per_unit = 365,
               i_supplier_reliability = 1\<rparr>"

section \<open>Properties\<close>

subsection \<open>Rounding\<close>

lemma rhe_bounds: "x - 1/2 \<le> of_int (round_half_even x) \<and> of_int (round_half_even x) \<le> x + 1/2"
  unfolding round_half_even_def Let_def by (auto; linarith)

lemma rhe_of_int: "round_half_even (of_int k) = k"
  unfolding round_half_even_def Let_def by simp

lemma rhe_ge_floor: "\<lfloor>x\<rfloor> \<le> round_half_even x"
  unfolding round_half_even_def Let_def by simp

lemma rhe_le_floor: "round_half_even x \<le> \<lfloor>x\<rfloor> + 1"
  unfolding round_half_even_def Let_def by simp

lemma rhe_mono: 
  assumes "x \<le> y" shows "round_half_even x \<le> round_half_even y"
proof (cases "\<lfloor>x\<rfloor> = \<lfloor>y\<rfloor>")
  case True
  with assms show ?thesis
    unfolding round_half_even_def Let_def by auto
next
  case False
  with assms have "\<lfloor>x\<rfloor> < \<lfloor>y\<rfloor>"
    using floor_mono [of x y] by linarith
  then have "\<lfloor>x\<rfloor> + 1 \<le> \<lfloor>y\<rfloor>" by simp
  with rhe_le_floor [of x] rhe_ge_floor [of y] show ?thesis by linarith
qed

lemma rhe_add_near:
  "\<bar>round_half_even (a + b) - (round_half_even a + round_half_even b)\<bar> \<le> 1"
proof -
  let ?d = "round_half_even (a + b) - (round_half_even a + round_half_even b)"
  have "real_of_int ?d \<le> 3/2" "- (3/2) \<le> real_of_int ?d"
    using rhe_bounds [of "a + b"] rhe_bounds [of a] rhe_bounds [of b] by simp_all
  then have "real_of_int ?d < 2" "real_of_int (- 2) < real_of_int ?d"
    by simp_all
  then have "?d < 2" "- 2 < ?d"
    by (simp_all only: of_int_less_iff of_int_less_numeral_iff)
  then show ?thesis by linarith
qed

lemma py_round_mono: "x \<le> y \<Longrightarrow> py_round x n \<le> py_round y n"
  unfolding py_round_def by (simp add: divide_right_mono rhe_mono)

lemma py_round_zero: "py_round 0 n = 0"
  unfolding py_round_def using rhe_of_int [of 0] by simp

lemma py_round_nonneg: "0 \<le> x \<Longrightarrow> 0 \<le> py_round x n"
  using py_round_mono [of 0 x n] by (simp add: py_round_zero)

lemma py_round_add_near: "\<bar>py_round (a + b) 1 - (py_round a 1 + py_round b 1)\<bar> \<le> 1/10"
proof -
  have "\<bar>real_of_int (round_half_even (a * 10 + b * 10) - (round_half_even (a * 10) + round_half_even (b * 10)))\<bar> \<le> 1"
    using rhe_add_near [of "a * 10" "b * 10"] by linarith
  then show ?thesis
    unfolding py_round_def by (simp add: distrib_right field_simps)
qed

subsection \<open>The stock-level planner\<close>

lemma sqrt_quarter: "sqrt (1/4) = 1/2"
  by (rule real_sqrt_unique) (simp_all add: power2_eq_square)

lemma dairy_stats:
  "demand_stats dairy c =
     (if c = ''Dairy'' then Some \<lparr>st_mean = 5/4, st_std = Some (1/2), st_max = 2\<rparr> else None)"
  by (simp add: demand_stats_def dairy_def group_values_def mean_def sample_std_def
        power2_eq_square sqrt_quarter)

lemma milk_plan_eval: "calculate_optimal_stock_levels dairy [milk] 0.95 = Inr [milk_plan]"
  by (simp add: calculate_optimal_stock_levels_def dairy_stats plan_row_def milk_def
        milk_plan_def z_score_def round1_def reorder_point_of_def safety_stock_of_def
        demand_std_of_def np_sqrt_def max_stock_of_def eoq_of_def py_round_def
        round_half_even_def Let_def)

lemma plan_rows_Inr:
  "plan_rows stats sl items = Inr plans \<Longrightarrow>
     plans = map (\<lambda>row. plan_row sl (the (stats (i_category row))) row) items
     \<and> (\<forall>row \<in> set items. stats (i_category row) \<noteq> None)"
  by (induction items arbitrary: plans) (auto split: option.splits sum.splits)

lemma plan_rows_unknown:
  "row \<in> set items \<Longrightarrow> stats (i_category row) = None \<Longrightarrow> plan_rows stats sl items = Inl IndexError"
  by (induction items) (auto split: option.splits sum.splits)

lemma sum_list_nonneg': "\<forall>x\<in>set xs. (0::real) \<le> x \<Longrightarrow> 0 \<le> sum_list xs"
  by (induction xs) auto

lemma mean_nonneg: "\<forall>x\<in>set xs. 0 \<le> x \<Longrightarrow> 0 \<le> mean xs"
  unfolding mean_def by (simp add: sum_list_nonneg')

lemma demand_stats_mean_nonneg:
  assumes "demand_stats sample c = Some cs" "\<forall>r\<in>set sample. 0 \<le> d_demand_quantity r"
  shows "0 \<le> st_mean cs"
proof -
  have "st_mean cs = mean (group_values sample c)"
    using assms(1) by (auto simp: demand_stats_def Let_def split: if_splits)
  moreover have "\<forall>x\<in>set (group_values sample c). 0 \<le> x"
    using assms(2) by (auto simp: group_values_def)
  ultimately show ?thesis by (simp add: mean_nonneg)
qed

lemma sample_std_nonneg: "sample_std vs = Some s \<Longrightarrow> 0 \<le> s"
proof -
  assume a: "sample_std vs = Some s"
  have "0 \<le> sum_list (map (\<lambda>v. (v - mean vs)\<^sup>2) vs)"
    by (rule sum_list_nonneg') simp
  then have "0 \<le> sqrt (sum_list (map (\<lambda>v. (v - mean vs)\<^sup>2) vs) / real (length vs - 1))"
    by simp
  with a show ?thesis
    by (auto simp: sample_std_def split: if_splits)
qed

lemma demand_stats_std_nonneg:
  assumes "demand_stats sample c = Some cs" "st_std cs = Some s"
  shows "0 \<le> s"
proof -
  have "st_std cs = sample_std (group_values sample c)"
    using assms(1) by (auto simp: demand_stats_def Let_def split: if_splits)
  with assms(2) show ?thesis by (simp add: sample_std_nonneg)
qed

lemma z_score_pos: "0 < z_score sl"
  by (simp add: z_score_def)

lemma plan_row_bounds:
  assumes m: "0 \<le> st_mean cs" and s: "\<And>s. st_std cs = Some s \<Longrightarrow> 0 \<le> s"
      and l: "0 \<le> i_lead_time_hours row"
  shows "\<exists>rp ms e. p_reorder_point (plan_row sl cs row) = Some rp
           \<and> p_optimal_max_stock (plan_row sl cs row) = Some ms
           \<and> p_eoq (plan_row sl cs row) = Some e
           \<and> 0 \<le> rp \<and> rp \<le> ms \<and> 0 \<le> e \<and> \<bar>ms - (rp + e)\<bar> \<le> 1/10"
proof -
  have d: "0 \<le> demand_std_of cs"
    using m s by (auto simp: demand_std_of_def split: option.splits)
  obtain ss where ss: "safety_stock_of (z_score sl) cs row = Some ss" "0 \<le> ss"
    using l d z_score_pos [of sl] by (simp add: safety_stock_of_def np_sqrt_def less_imp_le)
  obtain r where r: "reorder_point_of (z_score sl) cs row = Some r" "0 \<le> r"
    using ss m l by (simp add: reorder_point_of_def)
  have "\<exists>e. eoq_of cs row = Some e \<and> 0 \<le> e"
  proof (cases "0 < i_storage_cost_per_unit row * 0.2")
    case True
    then have "0 \<le> (2 * (st_mean cs * 365) * 50) / (i_storage_cost_per_unit row * 0.2)"
      using m by (intro divide_nonneg_pos mult_nonneg_nonneg) simp_all
    with True show ?thesis
      by (simp add: eoq_of_def np_sqrt_def Let_def not_less)
  next
    case False
    with m show ?thesis by (simp add: eoq_of_def Let_def)
  qed
  then obtain e where e: "eoq_of cs row = Some e" "0 \<le> e" by blast
  have ms: "max_stock_of (z_score sl) cs row = Some (r + e)"
    using r e by (simp add: max_stock_of_def)
  have "0 \<le> py_round r 1" "0 \<le> py_round e 1" "py_round r 1 \<le> py_round (r + e) 1"
    using r e by (simp_all add: py_round_nonneg py_round_mono)
  with py_round_add_near [of r e] show ?thesis
    using r e ms by (simp add: plan_row_def round1_def)
qed

text \<open>
  C9, as the code has it. Over demand observations and lead times that are not negative,
  every row of the stock-level table has a reorder point, a maximum stock and an order
  quantity with \<open>0 \<le> reorder_point \<le> optimal_max_stock\<close> and \<open>0 \<le> eoq\<close>, for every
  service level. The three fields are rounded to one decimal each on their own, so
  \<open>optimal_max_stock\<close> is within \<open>0.1\<close> of \<open>reorder_point + eoq\<close>, not always equal to it.
\<close>

theorem stock_level_plan_bounds:
  assumes "calculate_optimal_stock_levels sample_data inventory_data service_level = Inr optimal_levels"
      and "p \<in> set optimal_levels"
      and "\<forall>r \<in> set sample_data. 0 \<le> d_demand_quantity r"
      and "\<forall>row \<in> set inventory_data. 0 \<le> i_lead_time_hours row"
  shows "\<exists>rp ms e. p_reorder_point p = Some rp \<and> p_optimal_max_stock p = Some ms
           \<and> p_eoq p = Some e \<and> 0 \<le> rp \<and> rp \<le> ms \<and> 0 \<le> e \<and> \<bar>ms - (rp + e)\<bar> \<le> 1/10"
proof -
  from assms(1) have pr: "optimal_levels = map (\<lambda>row. plan_row service_level (the (demand_stats sample_data (i_category row))) row) inventory_data"
    and known: "\<forall>row \<in> set inventory_data. demand_stats sample_data (i_category row) \<noteq> None"
    using plan_rows_Inr unfolding calculate_optimal_stock_levels_def by blast+
  from assms(2) pr obtain row where row: "row \<in> set inventory_data"
    and p: "p = plan_row service_level (the (demand_stats sample_data (i_category row))) row"
    by auto
  from known row obtain cs where cs: "demand_stats sample_data (i_category row) = Some cs"
    by auto
  have "0 \<le> st_mean cs" using demand_stats_mean_nonneg [OF cs assms(3)] .
  moreover have "\<And>s. st_std cs = Some s \<Longrightarrow> 0 \<le> s" using demand_stats_std_nonneg [OF cs] .
  moreover have "0 \<le> i_lead_time_hours row" using assms(4) row by simp
  ultimately show ?thesis
    unfolding p cs option.sel by (rule plan_row_bounds)
qed

theorem stock_level_plan_bounds_witness:
  "calculate_optimal_stock_levels dairy [milk] 0.95 = Inr [milk_plan]
   \<and> (\<exists>rp ms e. p_reorder_point milk_plan = Some rp \<and> p_optimal_max_stock milk_plan = Some ms
           \<and> p_eoq milk_plan = Some e \<and> 0 \<le> rp \<and> rp \<le> ms \<and> 0 \<le> e \<and> \<bar>ms - (rp + e)\<bar> \<le> 1/10)"
proof -
  have h1: "calculate_optimal_stock_levels dairy [milk] 0.95 = Inr [milk_plan]"
    by (rule milk_plan_eval)
  have h2: "milk_plan \<in> set [milk_plan]" by simp
  have h3: "\<forall>r \<in> set dairy. 0 \<le> d_demand_quantity r" by (simp add: dairy_def)
  have h4: "\<forall>row \<in> set [milk]. 0 \<le> i_lead_time_hours row" by (simp add: milk_def)
  from stock_level_plan_bounds [OF h1 h2 h3 h4] h1 show ?thesis by blast
qed

text \<open>
  The sum does not survive the rounding: mean demand \<open>1.25\<close>, deviation \<open>0.5\<close>, a lead
  time of a day and no storage cost give \<open>2.075\<close>, \<open>8.75\<close> and \<open>10.825\<close>, written to the
  row as \<open>2.1\<close>, \<open>8.8\<close> and \<open>10.8\<close>.
\<close>

theorem stock_level_plan_sum_counterexample:
  "calculate_optimal_stock_levels dairy [milk] 0.95 = Inr [milk_plan]
   \<and> p_optimal_max_stock milk_plan \<noteq> add_nan (p_reorder_point milk_plan) (p_eoq milk_plan)"
proof (intro conjI)
  show "calculate_optimal_stock_levels dairy [milk] 0.95 = Inr [milk_plan]"
    by (rule milk_plan_eval)
  show "p_optimal_max_stock milk_plan \<noteq> add_nan (p_reorder_point milk_plan) (p_eoq milk_plan)"
    by (simp add: milk_plan_def)
qed

text \<open>
  C4, as the code has it. An inventory row whose category has no demand statistics makes
  \<^verbatim>\<open>.iloc[0]\<close> raise \<^verbatim>\<open>IndexError\<close>; no handler surrounds the loop, so the call ends
  there and returns no stock-level row at all, whatever the service level and wherever
  the row stands in the inventory.
\<close>

theorem unknown_category_aborts:
  assumes "row \<in> set inventory_data"
      and "demand_stats sample_data (i_category row) = None"
  shows "calculate_optimal_stock_levels sample_data inventory_data service_level = Inl IndexError"
  using assms unfolding calculate_optimal_stock_levels_def by (rule plan_rows_unknown)

theorem unknown_category_aborts_witness:
  "saffron \<in> set [saffron, milk] \<and> demand_stats dairy (i_category saffron) = None
   \<and> calculate_optimal_stock_levels dairy [saffron, milk] 0.99 = Inl IndexError"
proof -
  have h1: "saffron \<in> set [saffron, milk]" by simp
  have h2: "demand_stats dairy (i_category saffron) = None"
    by (simp add: dairy_stats saffron_def)
  from unknown_category_aborts [OF h1 h2] h1 h2 show ?thesis by blast
qed

text \<open>
  The failure is not confined to the offending row: the planner that returns a plan for
  the milk alone returns none once a row of an unknown category follows it.
\<close>

theorem unknown_category_isolated_counterexample:
  "calculate_optimal_stock_levels dairy [milk] 0.95 = Inr [milk_plan]
   \<and> calculate_optimal_stock_levels dairy [milk, saffron] 0.95 = Inl IndexError"
proof (intro conjI)
  show "calculate_optimal_stock_levels dairy [milk] 0.95 = Inr [milk_plan]"
    by (rule milk_plan_eval)
  show "calculate_optimal_stock_levels dairy [milk, saffron] 0.95 = Inl IndexError"
    by (simp add: calculate_optimal_stock_levels_def dairy_stats saffron_def milk_def)
qed

subsection \<open>The forecast table and its 24-hour aggregate\<close>

lemma filter_le_upto: "filter (\<lambda>i. i \<le> k) [1..h] = [1..min h k]" for k h :: int
proof (rule sorted_distinct_set_unique)
  show "sorted (filter (\<lambda>i. i \<le> k) [1..h])" by (simp add: sorted_wrt_filter)
  show "distinct (filter (\<lambda>i. i \<le> k) [1..h])" by simp
  show "set (filter (\<lambda>i. i \<le> k) [1..h]) = set [1..min h k]" by auto
qed simp_all

lemma forecast_demand_Inr:
  "forecast_demand fm sample h = Inr fs \<Longrightarrow>
     fm \<noteq> [] \<and>
     fs = concat (map (\<lambda>(category, model). map (forecast_point_of sample category model)
                          (future_timestamps sample h)) fm)"
  by (auto simp: forecast_demand_def split: if_splits)

lemma f_timestamp_point [simp]: "f_timestamp (forecast_point_of sample c m ts) = ts"
  by (simp add: forecast_point_of_def Let_def)

lemma f_category_point [simp]: "f_category (forecast_point_of sample c m ts) = c"
  by (simp add: forecast_point_of_def Let_def)

lemma map_f_timestamp_points:
  "map f_timestamp (concat (map (\<lambda>(category, model).
      map (forecast_point_of sample category model) tss) fm)) = concat (map (\<lambda>_. tss) fm)"
  by (induction fm) (auto simp: comp_def)

lemma forecast_timestamps:
  assumes "fm \<noteq> []"
  shows "set (map f_timestamp (concat (map (\<lambda>(category, model).
            map (forecast_point_of sample category model) tss) fm))) = set tss"
  unfolding map_f_timestamp_points using assms by (cases fm) auto

lemma Min_future_timestamps:
  assumes "1 \<le> h"
  shows "Min (set (future_timestamps sample h)) = last_timestamp sample + timedelta_hours 1"
proof (rule Min_eqI)
  show "finite (set (future_timestamps sample h))" by simp
  show "last_timestamp sample + timedelta_hours 1 \<in> set (future_timestamps sample h)"
    using assms by (auto simp: future_timestamps_def)
  show "\<And>y. y \<in> set (future_timestamps sample h) \<Longrightarrow> last_timestamp sample + timedelta_hours 1 \<le> y"
    by (auto simp: future_timestamps_def timedelta_hours_def)
qed

lemma filter_future_timestamps:
  "filter (\<lambda>ts. ts \<le> last_timestamp sample + timedelta_hours 1 + timedelta_hours 24)
      (future_timestamps sample h) = future_timestamps sample (min h 25)"
proof -
  have "(\<lambda>i. last_timestamp sample + timedelta_hours i
            \<le> last_timestamp sample + timedelta_hours 1 + timedelta_hours 24) = (\<lambda>i. i \<le> 25)"
    by (auto simp: timedelta_hours_def)
  then show ?thesis
    by (simp add: future_timestamps_def filter_map comp_def filter_le_upto)
qed

lemma next_24h_demand_forecast:
  assumes "forecast_demand fm sample h = Inr fs" "1 \<le> h"
  shows "next_24h_demand fs =
     concat (map (\<lambda>(category, model). map (forecast_point_of sample category model)
                          (future_timestamps sample (min h 25))) fm)"
proof -
  from forecast_demand_Inr [OF assms(1)] have ne: "fm \<noteq> []"
    and fs: "fs = concat (map (\<lambda>(category, model). map (forecast_point_of sample category model)
                          (future_timestamps sample h)) fm)" by simp_all
  have m: "Min (set (map f_timestamp fs)) = last_timestamp sample + timedelta_hours 1"
    unfolding fs forecast_timestamps [OF ne] by (rule Min_future_timestamps [OF assms(2)])
  have "next_24h_demand fs =
      filter (\<lambda>f. f_timestamp f \<le> last_timestamp sample + timedelta_hours 1 + timedelta_hours 24) fs"
    unfolding next_24h_demand_def m ..
  also have "\<dots> = concat (map (\<lambda>(category, model). map (forecast_point_of sample category model)
                 (filter (\<lambda>ts. ts \<le> last_timestamp sample + timedelta_hours 1 + timedelta_hours 24)
                    (future_timestamps sample h))) fm)"
    unfolding fs by (induction fm) (auto simp: filter_map comp_def)
  finally show ?thesis by (simp only: filter_future_timestamps)
qed

lemma filter_category_concat:
  assumes "distinct (map fst fm)" "(c, m) \<in> set fm"
  shows "filter (\<lambda>f. f_category f = c)
           (concat (map (\<lambda>(category, model). map (forecast_point_of sample category model) tss) fm))
         = map (forecast_point_of sample c m) tss"
  using assms
proof (induction fm)
  case Nil then show ?case by simp
next
  case (Cons x fm)
  obtain c' m' where x: "x = (c', m')" by (cases x)
  show ?case
  proof (cases "c' = c")
    case True
    with Cons.prems x have "m' = m" and "c \<notin> fst ` set fm" by (auto simp: image_iff)
    then have "filter (\<lambda>f. f_category f = c)
           (concat (map (\<lambda>(category, model). map (forecast_point_of sample category model) tss) fm)) = []"
      by (auto simp: filter_empty_conv image_iff)
    with True x \<open>m' = m\<close> show ?thesis by simp
  next
    case False
    with Cons x show ?thesis by (auto simp: filter_empty_conv)
  qed
qed

lemma filter_category_absent:
  assumes "c \<notin> fst ` set fm"
  shows "filter (\<lambda>f. f_category f = c)
           (concat (map (\<lambda>(category, model). map (forecast_point_of sample category model) tss) fm)) = []"
  using assms by (auto simp: filter_empty_conv image_iff)

lemma predicted_demand_24h_forecast:
  assumes "forecast_demand fm sample h = Inr fs" "1 \<le> h"
      and "distinct (map fst fm)" "(c, m) \<in> set fm"
  shows "predicted_demand_24h_of fs c =
           sum_list (map (\<lambda>ts. f_predicted_demand (forecast_point_of sample c m ts))
                      (future_timestamps sample (min h 25)))"
  unfolding predicted_demand_24h_of_def demand_summary_def
    next_24h_demand_forecast [OF assms(1,2)] filter_category_concat [OF assms(3,4)]
  by (simp add: comp_def Let_def)

lemma predicted_demand_24h_absent:
  assumes "forecast_demand fm sample h = Inr fs" "1 \<le> h" "c \<notin> fst ` set fm"
  shows "predicted_demand_24h_of fs c = 0"
  unfolding predicted_demand_24h_of_def demand_summary_def
    next_24h_demand_forecast [OF assms(1,2)] filter_category_absent [OF assms(3)]
  by simp

subsection \<open>The restocking schedule\<close>

lemma py_round_idem: "py_round (py_round x n) n = py_round x n"
  unfolding py_round_def by (simp add: rhe_of_int)

lemma round1_idem: "round1 (round1 v) = round1 v"
  by (cases v) (simp_all add: round1_def py_round_idem)

lemma forecast_nonempty:
  assumes "forecast_demand fm sample h = Inr fs" "1 \<le> h"
  shows "fs \<noteq> []"
proof -
  from forecast_demand_Inr [OF assms(1)] have ne: "fm \<noteq> []"
    and fs: "fs = concat (map (\<lambda>(category, model). map (forecast_point_of sample category model)
                          (future_timestamps sample h)) fm)" by simp_all
  have "set (map f_timestamp fs) = set (future_timestamps sample h)"
    unfolding fs by (rule forecast_timestamps [OF ne])
  moreover have "future_timestamps sample h \<noteq> []"
    using assms(2) by (simp add: future_timestamps_def)
  ultimately show ?thesis by auto
qed

lemma schedule_Inr:
  assumes "generate_restocking_schedule fm sample inventory h = Inr schedule"
  shows "\<exists>fs ol. forecast_demand fm sample h = Inr fs
           \<and> calculate_optimal_stock_levels sample inventory 0.95 = Inr ol
           \<and> schedule = sort_values (List.map_filter (restock_row fs ol) inventory)"
  using assms unfolding generate_restocking_schedule_def
  by (auto simp: Let_def split: sum.splits if_splits)

lemma schedule_eval:
  assumes "forecast_demand fm sample h = Inr fs" "1 \<le> h"
      and "calculate_optimal_stock_levels sample inventory 0.95 = Inr ol"
      and "List.map_filter (restock_row fs ol) inventory = rows" "rows \<noteq> []"
  shows "generate_restocking_schedule fm sample inventory h = Inr (sort_values rows)"
  using assms forecast_nonempty [OF assms(1,2)] unfolding generate_restocking_schedule_def
  by (simp add: Let_def)

lemma set_sort_values: "set (sort_values rows) = set rows"
  by (simp add: sort_values_def)

lemma schedule_row:
  assumes "generate_restocking_schedule fm sample inventory h = Inr schedule"
      and "a \<in> set schedule"
  shows "\<exists>fs ol item. forecast_demand fm sample h = Inr fs
           \<and> calculate_optimal_stock_levels sample inventory 0.95 = Inr ol
           \<and> item \<in> set inventory \<and> restock_row fs ol item = Some a"
proof -
  from schedule_Inr [OF assms(1)] obtain fs ol where
    fs: "forecast_demand fm sample h = Inr fs"
    and ol: "calculate_optimal_stock_levels sample inventory 0.95 = Inr ol"
    and s: "schedule = sort_values (List.map_filter (restock_row fs ol) inventory)" by blast
  from assms(2) s obtain item where "item \<in> set inventory" "restock_row fs ol item = Some a"
    by (auto simp: set_sort_values List.map_filter_def)
  with fs ol show ?thesis by blast
qed

lemma plan_row_sel:
  "p_reorder_point (plan_row sl cs row) = round1 (reorder_point_of (z_score sl) cs row)"
  "p_optimal_max_stock (plan_row sl cs row) = round1 (max_stock_of (z_score sl) cs row)"
  "p_eoq (plan_row sl cs row) = round1 (eoq_of cs row)"
  "p_category (plan_row sl cs row) = i_category row"
  "p_dark_store_id (plan_row sl cs row) = i_dark_store_id row"
  by (simp_all add: plan_row_def Let_def)

lemma plan_reorder_point_rounded:
  assumes "calculate_optimal_stock_levels sample inventory sl = Inr ol" "plan \<in> set ol"
  shows "round1 (p_reorder_point plan) = p_reorder_point plan"
proof -
  from assms(1) have "ol = map (\<lambda>row. plan_row sl (the (demand_stats sample (i_category row))) row) inventory"
    using plan_rows_Inr unfolding calculate_optimal_stock_levels_def by blast
  with assms(2) show ?thesis
    by (auto simp: plan_row_sel round1_idem)
qed

lemma find_mem: "find P xs = Some x \<Longrightarrow> x \<in> set xs"
  by (auto simp: find_Some_iff)

lemma restock_row_Some:
  assumes "restock_row fs ol item = Some a"
  shows "\<exists>plan. find (\<lambda>p. p_category p = i_category item \<and> p_dark_store_id p = i_dark_store_id item) ol = Some plan
     \<and> a_current_stock a = i_current_stock item
     \<and> a_category a = i_category item
     \<and> a_dark_store_id a = i_dark_store_id item
     \<and> a_product_name a = i_product_name item
     \<and> a_predicted_demand_24h a = py_round (predicted_demand_24h_of fs (i_category item)) 1
     \<and> a_projected_stock_24h a = py_round (i_current_stock item - predicted_demand_24h_of fs (i_category item)) 1
     \<and> a_reorder_point a = round1 (p_reorder_point plan)
     \<and> a_needs_restock a = le_nan (i_current_stock item - predicted_demand_24h_of fs (i_category item)) (p_reorder_point plan)
     \<and> a_urgency a = urgency_of (i_current_stock item - predicted_demand_24h_of fs (i_category item)) (p_reorder_point plan)
     \<and> a_suggested_order_qty a = round1 (suggested_order_of (a_needs_restock a) (p_optimal_max_stock plan) (i_current_stock item))"
  using assms unfolding restock_row_def
  by (auto simp: Let_def split: option.splits)

lemma urgency_of_cases:
  "urgency_of p rp =
     (if p \<le> 0 then Critical
      else case rp of None \<Rightarrow> Low
           | Some r \<Rightarrow> if p \<le> 0.5 * r then High else if p \<le> r then Medium else Low)"
  by (cases rp) (simp_all add: urgency_of_def mult.commute)

text \<open>
  C6, as the code has it. Every action of the schedule comes from an inventory item, and
  its urgency follows by the four thresholds from the item's projected stock as the loop
  computes it, \<open>current_stock - predicted_demand_24h\<close> before any rounding, and from the
  action's reorder point: at most \<open>0\<close> is Critical, at most half the reorder point is
  High, at most the reorder point is Medium, anything else is Low, also when the reorder
  point is \<^verbatim>\<open>NaN\<close>. The action's \<open>projected_stock_24h\<close> is that projected stock rounded to
  one decimal, written after the urgency is decided.
\<close>

theorem urgency_thresholds:
  assumes "generate_restocking_schedule forecast_models sample_data inventory_data horizon = Inr schedule"
      and "a \<in> set schedule"
  shows "\<exists>item forecasts.
           item \<in> set inventory_data
         \<and> forecast_demand forecast_models sample_data horizon = Inr forecasts
         \<and> a_current_stock a = i_current_stock item
         \<and> a_product_name a = i_product_name item
         \<and> (let projected_stock_24h =
                  i_current_stock item - predicted_demand_24h_of forecasts (i_category item)
            in a_projected_stock_24h a = py_round projected_stock_24h 1
             \<and> a_urgency a =
                 (if projected_stock_24h \<le> 0 then Critical
                  else case a_reorder_point a of
                         None \<Rightarrow> Low
                       | Some reorder_point \<Rightarrow>
                           if projected_stock_24h \<le> 0.5 * reorder_point then High
                           else if projected_stock_24h \<le> reorder_point then Medium
                           else Low))"
proof -
  from schedule_row [OF assms] obtain fs ol item where
    fs: "forecast_demand forecast_models sample_data horizon = Inr fs"
    and ol: "calculate_optimal_stock_levels sample_data inventory_data 0.95 = Inr ol"
    and item: "item \<in> set inventory_data" and row: "restock_row fs ol item = Some a" by blast
  from restock_row_Some [OF row] obtain plan where
    plan: "find (\<lambda>p. p_category p = i_category item \<and> p_dark_store_id p = i_dark_store_id item) ol = Some plan"
    and f: "a_current_stock a = i_current_stock item" "a_product_name a = i_product_name item"
      "a_projected_stock_24h a = py_round (i_current_stock item - predicted_demand_24h_of fs (i_category item)) 1"
      "a_reorder_point a = round1 (p_reorder_point plan)"
      "a_urgency a = urgency_of (i_current_stock item - predicted_demand_24h_of fs (i_category item)) (p_reorder_point plan)"
    by blast
  have "a_reorder_point a = p_reorder_point plan"
    using f(4) plan_reorder_point_rounded [OF ol find_mem [OF plan]] by simp
  with f(5) have "a_urgency a = urgency_of (i_current_stock item - predicted_demand_24h_of fs (i_category item)) (a_reorder_point a)"
    by simp
  with item fs f(1,2,3) show ?thesis
    unfolding Let_def urgency_of_cases by blast
qed


lemma rhe_neg_iff: "round_half_even x < 0 \<longleftrightarrow> x < - (1/2)"
proof
  assume neg: "round_half_even x < 0"
  then have "round_half_even x \<le> - 1" by simp
  then have "real_of_int (round_half_even x) \<le> - 1" by linarith
  with rhe_bounds [of x] have le: "x \<le> - (1/2)" by linarith
  show "x < - (1/2)"
  proof (rule ccontr)
    assume "\<not> x < - (1/2)"
    with le have x: "x = - (1/2)" by simp
    have "\<lfloor>- (1/2) :: real\<rfloor> = - 1" by (simp add: floor_eq_iff)
    then have "round_half_even (- (1/2)) = 0"
      by (simp add: round_half_even_def Let_def)
    with neg x show False by simp
  qed
next
  assume lt: "x < - (1/2)"
  with rhe_bounds [of x] have "real_of_int (round_half_even x) \<le> 0" by linarith
  then have le: "round_half_even x \<le> 0" by simp
  show "round_half_even x < 0"
  proof (rule ccontr)
    assume "\<not> round_half_even x < 0"
    with le have "round_half_even x = 0" by simp
    with rhe_bounds [of x] lt show False by simp
  qed
qed

lemma py_round_neg_iff: "py_round x 1 < 0 \<longleftrightarrow> x < - (1/20)"
proof -
  have "py_round x 1 < 0 \<longleftrightarrow> round_half_even (x * 10) < 0"
    by (simp add: py_round_def divide_less_0_iff)
  also have "\<dots> \<longleftrightarrow> x * 10 < - (1/2)" by (rule rhe_neg_iff)
  also have "\<dots> \<longleftrightarrow> x < - (1/20)" by auto
  finally show ?thesis .
qed

text \<open>
  C2, as the code has it. The plan of an action is the first stock-level plan of the
  item's category and store. The suggested order quantity is that plan's
  \<open>optimal_max_stock - current_stock\<close>, rounded to one decimal (\<^verbatim>\<open>NaN\<close> when the plan's
  maximum is), when \<open>needs_restock\<close> holds, and \<open>0\<close> otherwise. Nothing clamps the
  difference: where the plan has a maximum, the quantity is not negative when the current
  stock is at most \<open>optimal_max_stock + 0.05\<close>, and it is negative when an item that needs
  restocking holds more than \<open>optimal_max_stock + 0.05\<close>.
\<close>

theorem suggested_order_qty_value:
  assumes "generate_restocking_schedule forecast_models sample_data inventory_data horizon = Inr schedule"
      and "a \<in> set schedule"
  shows "\<exists>item optimal_levels plan.
           item \<in> set inventory_data
         \<and> calculate_optimal_stock_levels sample_data inventory_data 0.95 = Inr optimal_levels
         \<and> find (\<lambda>p. p_category p = i_category item \<and> p_dark_store_id p = i_dark_store_id item)
               optimal_levels = Some plan
         \<and> a_current_stock a = i_current_stock item
         \<and> a_product_name a = i_product_name item
         \<and> a_suggested_order_qty a =
               (if a_needs_restock a
                then map_option (\<lambda>max_stock. py_round (max_stock - i_current_stock item) 1)
                       (p_optimal_max_stock plan)
                else Some 0)
         \<and> (\<forall>max_stock. p_optimal_max_stock plan = Some max_stock \<longrightarrow>
               (\<exists>q. a_suggested_order_qty a = Some q
                  \<and> (i_current_stock item \<le> max_stock + 0.05 \<longrightarrow> 0 \<le> q)
                  \<and> (a_needs_restock a \<and> max_stock + 0.05 < i_current_stock item \<longrightarrow> q < 0)))"
proof -
  from schedule_row [OF assms] obtain fs ol item where
    ol: "calculate_optimal_stock_levels sample_data inventory_data 0.95 = Inr ol"
    and item: "item \<in> set inventory_data" and row: "restock_row fs ol item = Some a" by blast
  from restock_row_Some [OF row] obtain plan where
    plan: "find (\<lambda>p. p_category p = i_category item \<and> p_dark_store_id p = i_dark_store_id item) ol = Some plan"
    and f: "a_current_stock a = i_current_stock item" "a_product_name a = i_product_name item"
    and q: "a_suggested_order_qty a = round1 (suggested_order_of (a_needs_restock a) (p_optimal_max_stock plan) (i_current_stock item))"
    by blast
  have v: "a_suggested_order_qty a =
               (if a_needs_restock a
                then map_option (\<lambda>max_stock. py_round (max_stock - i_current_stock item) 1)
                       (p_optimal_max_stock plan)
                else Some 0)"
    unfolding q by (cases "p_optimal_max_stock plan")
      (simp_all add: suggested_order_of_def round1_def py_round_zero)
  have sign: "\<exists>q. a_suggested_order_qty a = Some q
                  \<and> (i_current_stock item \<le> max_stock + 0.05 \<longrightarrow> 0 \<le> q)
                  \<and> (a_needs_restock a \<and> max_stock + 0.05 < i_current_stock item \<longrightarrow> q < 0)"
    if m: "p_optimal_max_stock plan = Some max_stock" for max_stock
  proof (cases "a_needs_restock a")
    case False
    with v show ?thesis by simp
  next
    case True
    with v m have e: "a_suggested_order_qty a = Some (py_round (max_stock - i_current_stock item) 1)"
      by simp
    have "0 \<le> py_round (max_stock - i_current_stock item) 1"
      if "i_current_stock item \<le> max_stock + 0.05"
    proof -
      from that have "\<not> max_stock - i_current_stock item < - (1/20)" by simp
      then have "\<not> py_round (max_stock - i_current_stock item) 1 < 0"
        using py_round_neg_iff [of "max_stock - i_current_stock item"] by blast
      then show ?thesis by simp
    qed
    moreover have "py_round (max_stock - i_current_stock item) 1 < 0"
      if "max_stock + 0.05 < i_current_stock item"
    proof -
      from that have "max_stock - i_current_stock item < - (1/20)" by simp
      then show ?thesis
        using py_round_neg_iff [of "max_stock - i_current_stock item"] by blast
    qed
    ultimately show ?thesis using e by simp
  qed
  from item ol plan f v sign show ?thesis by blast
qed

lemma sort_values_sorted:
  "sorted (map (\<lambda>a. (- urgency_order (a_urgency a), a_projected_stock_24h a)) (sort_values rows))"
  unfolding sort_values_def by (rule sorted_sort_key)

lemma urgency_order_inj: "urgency_order u = urgency_order v \<longleftrightarrow> u = v"
  by (cases u; cases v) simp_all

text \<open>
  C1. Whatever the inventory and its order, a schedule that is returned is sorted: the
  severity rank never increases from one row to a later one, and of two rows of the same
  urgency the earlier has the smaller or equal \<open>projected_stock_24h\<close>.
\<close>

theorem schedule_totally_ordered:
  assumes "generate_restocking_schedule forecast_models sample_data inventory_data horizon = Inr schedule"
      and "i < j" and "j < length schedule"
  shows "urgency_order (a_urgency (schedule ! j)) \<le> urgency_order (a_urgency (schedule ! i))
       \<and> (a_urgency (schedule ! i) = a_urgency (schedule ! j)
            \<longrightarrow> a_projected_stock_24h (schedule ! i) \<le> a_projected_stock_24h (schedule ! j))"
proof -
  let ?key = "\<lambda>a. (- urgency_order (a_urgency a), a_projected_stock_24h a)"
  from schedule_Inr [OF assms(1)] obtain rows where "schedule = sort_values rows" by blast
  then have "sorted (map ?key schedule)" by (simp add: sort_values_sorted)
  then have "map ?key schedule ! i \<le> map ?key schedule ! j"
    using assms(2,3) by (simp add: sorted_iff_nth_mono)
  then have "?key (schedule ! i) \<le> ?key (schedule ! j)"
    using assms(2,3) by simp
  then show ?thesis
    by (auto simp: less_eq_prod_def)
qed

subsection \<open>Runs of the scheduler on the concrete tables\<close>

lemma dairy_forecast:
  "\<exists>fs. forecast_demand unit_model dairy 72 = Inr fs \<and> predicted_demand_24h_of fs ''Dairy'' = 25"
proof -
  let ?fs = "concat (map (\<lambda>(category, model). map (forecast_point_of dairy category model)
                          (future_timestamps dairy 72)) unit_model)"
  have fs: "forecast_demand unit_model dairy 72 = Inr ?fs"
    by (simp add: forecast_demand_def unit_model_def dairy_def)
  have "predicted_demand_24h_of ?fs ''Dairy'' =
           sum_list (map (\<lambda>ts. f_predicted_demand (forecast_point_of dairy ''Dairy'' (\<lambda>x. 1) ts))
                      (future_timestamps dairy (min 72 25)))"
    by (rule predicted_demand_24h_forecast [OF fs]) (simp_all add: unit_model_def)
  also have "\<dots> = 25"
    by (simp add: forecast_point_of_def Let_def py_round_def round_half_even_def
          future_timestamps_def sum_list_triv comp_def)
  finally show ?thesis using fs by blast
qed

lemma restock_row_eval:
  assumes "find (\<lambda>p. p_category p = i_category item \<and> p_dark_store_id p = i_dark_store_id item) ol
             = Some plan"
  shows "restock_row fs ol item =
     Some \<lparr>a_dark_store_id = i_dark_store_id item, a_product_name = i_product_name item,
           a_category = i_category item, a_current_stock = i_current_stock item,
           a_predicted_demand_24h = py_round (predicted_demand_24h_of fs (i_category item)) 1,
           a_projected_stock_24h =
             py_round (i_current_stock item - predicted_demand_24h_of fs (i_category item)) 1,
           a_reorder_point = round1 (p_reorder_point plan),
           a_needs_restock =
             le_nan (i_current_stock item - predicted_demand_24h_of fs (i_category item))
               (p_reorder_point plan),
           a_urgency =
             urgency_of (i_current_stock item - predicted_demand_24h_of fs (i_category item))
               (p_reorder_point plan),
           a_suggested_order_qty =
             round1 (suggested_order_of
                       (le_nan (i_current_stock item - predicted_demand_24h_of fs (i_category item))
                          (p_reorder_point plan))
                       (p_optimal_max_stock plan) (i_current_stock item)),
           a_lead_time_hours = i_lead_time_hours item,
           a_supplier_reliability = i_supplier_reliability item\<rparr>"
  using assms by (simp add: restock_row_def Let_def)

lemma dairy_restock_row:
  assumes "predicted_demand_24h_of fs ''Dairy'' = 25"
      and "calculate_optimal_stock_levels dairy (first # rest) 0.95 = Inr ol"
      and "i_category first = ''Dairy''" "i_dark_store_id first = ''DS1''"
          "i_lead_time_hours first = 24" "i_storage_cost_per_unit first = 0"
      and "i_category item = ''Dairy''" "i_dark_store_id item = ''DS1''"
  shows "restock_row fs ol item =
     Some \<lparr>a_dark_store_id = ''DS1'', a_product_name = i_product_name item,
           a_category = ''Dairy'', a_current_stock = i_current_stock item,
           a_predicted_demand_24h = 25,
           a_projected_stock_24h = py_round (i_current_stock item - 25) 1,
           a_reorder_point = Some 2.1,
           a_needs_restock = (i_current_stock item - 25 \<le> 2.1),
           a_urgency = urgency_of (i_current_stock item - 25) (Some 2.1),
           a_suggested_order_qty =
             round1 (suggested_order_of (i_current_stock item - 25 \<le> 2.1) (Some 10.8)
                       (i_current_stock item)),
           a_lead_time_hours = i_lead_time_hours item,
           a_supplier_reliability = i_supplier_reliability item\<rparr>"
proof -
  let ?cs = "\<lparr>st_mean = 5/4, st_std = Some (1/2), st_max = 2\<rparr>"
  from assms(2) obtain rest' where ol: "ol = plan_row 0.95 ?cs first # rest'"
    by (auto simp: calculate_optimal_stock_levels_def dairy_stats assms(3)
          split: sum.splits if_splits)
  have rp: "p_reorder_point (plan_row 0.95 ?cs first) = Some 2.1"
    by (simp add: plan_row_sel z_score_def round1_def reorder_point_of_def safety_stock_of_def
          demand_std_of_def np_sqrt_def assms(5) py_round_def round_half_even_def Let_def)
  have ms: "p_optimal_max_stock (plan_row 0.95 ?cs first) = Some 10.8"
    by (simp add: plan_row_sel z_score_def round1_def reorder_point_of_def safety_stock_of_def
          demand_std_of_def np_sqrt_def max_stock_of_def eoq_of_def assms(5,6) py_round_def
          round_half_even_def Let_def)
  have fnd: "find (\<lambda>p. p_category p = i_category item \<and> p_dark_store_id p = i_dark_store_id item) ol
      = Some (plan_row 0.95 ?cs first)"
    unfolding ol by (simp add: plan_row_sel assms)
  have r25: "py_round 25 1 = 25" "round1 (Some 2.1) = Some 2.1"
    by (simp_all add: round1_def py_round_def round_half_even_def Let_def)
  show ?thesis
    unfolding restock_row_eval [OF fnd] rp ms assms(7,8) assms(1) r25
    by simp
qed


lemma dairy_plans:
  "\<forall>row \<in> set items. i_category row = ''Dairy'' \<Longrightarrow>
     \<exists>ol. calculate_optimal_stock_levels dairy items sl = Inr ol"
  unfolding calculate_optimal_stock_levels_def
  by (induction items) (auto simp: dairy_stats)

lemma milk_run:
  "generate_restocking_schedule unit_model dairy [milk] 72 = Inr [milk_action]"
proof -
  from dairy_forecast obtain fs where fs: "forecast_demand unit_model dairy 72 = Inr fs"
    and pd: "predicted_demand_24h_of fs ''Dairy'' = 25" by blast
  obtain ol where ol: "calculate_optimal_stock_levels dairy [milk] 0.95 = Inr ol"
    using dairy_plans [of "[milk]"] by (auto simp: milk_def)
  have "restock_row fs ol milk = Some milk_action"
    by (subst dairy_restock_row [OF pd ol])
       (simp_all add: milk_def milk_action_def urgency_of_def suggested_order_of_def round1_def
          py_round_def round_half_even_def Let_def)
  then have rows: "List.map_filter (restock_row fs ol) [milk] = [milk_action]"
    by simp
  from schedule_eval [OF fs _ ol rows] show ?thesis
    by (simp add: sort_values_def)
qed

lemma ghee_run:
  "generate_restocking_schedule unit_model dairy [ghee] 72 = Inr [ghee_action]"
proof -
  from dairy_forecast obtain fs where fs: "forecast_demand unit_model dairy 72 = Inr fs"
    and pd: "predicted_demand_24h_of fs ''Dairy'' = 25" by blast
  obtain ol where ol: "calculate_optimal_stock_levels dairy [ghee] 0.95 = Inr ol"
    using dairy_plans [of "[ghee]"] by (auto simp: ghee_def)
  have "restock_row fs ol ghee = Some ghee_action"
    by (subst dairy_restock_row [OF pd ol])
       (simp_all add: ghee_def ghee_action_def urgency_of_def suggested_order_of_def round1_def
          py_round_def round_half_even_def Let_def)
  then have rows: "List.map_filter (restock_row fs ol) [ghee] = [ghee_action]"
    by simp
  from schedule_eval [OF fs _ ol rows] show ?thesis
    by (simp add: sort_values_def)
qed

lemma three_run:
  "generate_restocking_schedule unit_model dairy [paneer, milk, butter] 72
     = Inr [milk_action, butter_action, paneer_action]"
proof -
  from dairy_forecast obtain fs where fs: "forecast_demand unit_model dairy 72 = Inr fs"
    and pd: "predicted_demand_24h_of fs ''Dairy'' = 25" by blast
  obtain ol where ol: "calculate_optimal_stock_levels dairy [paneer, milk, butter] 0.95 = Inr ol"
    using dairy_plans [of "[paneer, milk, butter]"] by (auto simp: milk_def paneer_def butter_def)
  have 1: "restock_row fs ol paneer = Some paneer_action"
    by (subst dairy_restock_row [OF pd ol])
       (simp_all add: paneer_def paneer_action_def urgency_of_def suggested_order_of_def round1_def
          py_round_def round_half_even_def Let_def)
  have 2: "restock_row fs ol milk = Some milk_action"
    by (subst dairy_restock_row [OF pd ol])
       (simp_all add: paneer_def milk_def milk_action_def urgency_of_def suggested_order_of_def
          round1_def py_round_def round_half_even_def Let_def)
  have 3: "restock_row fs ol butter = Some butter_action"
    by (subst dairy_restock_row [OF pd ol])
       (simp_all add: paneer_def butter_def butter_action_def urgency_of_def suggested_order_of_def
          round1_def py_round_def round_half_even_def Let_def)
  have rows: "List.map_filter (restock_row fs ol) [paneer, milk, butter]
                = [paneer_action, milk_action, butter_action]"
    by (simp add: 1 2 3)
  have "sort_values [paneer_action, milk_action, butter_action]
          = [milk_action, butter_action, paneer_action]"
    by (simp add: sort_values_def paneer_action_def milk_action_def butter_action_def
          less_eq_prod_def)
  with schedule_eval [OF fs _ ol rows] show ?thesis by simp
qed

lemma sqrt_400: "sqrt 400 = 20"
  by (rule real_sqrt_unique) (simp_all add: power2_eq_square)

lemma snacks_stats:
  "demand_stats snacks c =
     (if c = ''Snacks'' then Some \<lparr>st_mean = 17, st_std = Some 20, st_max = 47\<rparr> else None)"
  by (simp add: demand_stats_def snacks_def group_values_def mean_def sample_std_def
        power2_eq_square sqrt_400)

lemma chips_run:
  "generate_restocking_schedule zero_model snacks [chips] 72 = Inr [chips_action]"
proof -
  let ?fs = "concat (map (\<lambda>(category, model). map (forecast_point_of snacks category model)
                          (future_timestamps snacks 72)) zero_model)"
  let ?plan = "plan_row 0.95 \<lparr>st_mean = 17, st_std = Some 20, st_max = 47\<rparr> chips"
  have fs: "forecast_demand zero_model snacks 72 = Inr ?fs"
    by (simp add: forecast_demand_def zero_model_def snacks_def)
  have "predicted_demand_24h_of ?fs ''Snacks'' =
           sum_list (map (\<lambda>ts. f_predicted_demand (forecast_point_of snacks ''Snacks'' (\<lambda>x. 0) ts))
                      (future_timestamps snacks (min 72 25)))"
    by (rule predicted_demand_24h_forecast [OF fs]) (simp_all add: zero_model_def)
  also have "\<dots> = 0"
    by (simp add: forecast_point_of_def Let_def py_round_def round_half_even_def
          future_timestamps_def sum_list_triv comp_def)
  finally have pd: "predicted_demand_24h_of ?fs (i_category chips) = 0"
    by (simp add: chips_def)
  have ol: "calculate_optimal_stock_levels snacks [chips] 0.95 = Inr [?plan]"
    by (simp add: calculate_optimal_stock_levels_def snacks_stats chips_def)
  have rp: "p_reorder_point ?plan = Some 50"
    by (simp add: plan_row_sel z_score_def round1_def reorder_point_of_def safety_stock_of_def
          demand_std_of_def np_sqrt_def chips_def py_round_def round_half_even_def Let_def)
  have ms: "p_optimal_max_stock ?plan = Some 169"
    by (simp add: plan_row_sel z_score_def round1_def reorder_point_of_def safety_stock_of_def
          demand_std_of_def np_sqrt_def max_stock_of_def eoq_of_def chips_def py_round_def
          round_half_even_def Let_def)
  have fnd: "find (\<lambda>p. p_category p = i_category chips \<and> p_dark_store_id p = i_dark_store_id chips)
               [?plan] = Some ?plan"
    by (simp add: plan_row_sel)
  have "restock_row ?fs [?plan] chips = Some chips_action"
    unfolding restock_row_eval [OF fnd] rp ms pd
    by (simp add: chips_def chips_action_def urgency_of_def suggested_order_of_def round1_def
          py_round_def round_half_even_def Let_def)
  then have rows: "List.map_filter (restock_row ?fs [?plan]) [chips] = [chips_action]"
    by simp
  from schedule_eval [OF fs _ ol rows] show ?thesis
    by (simp add: sort_values_def)
qed

theorem schedule_totally_ordered_witness:
  "generate_restocking_schedule unit_model dairy [paneer, milk, butter] 72
     = Inr [milk_action, butter_action, paneer_action]
   \<and> urgency_order (a_urgency butter_action) \<le> urgency_order (a_urgency milk_action)
   \<and> a_urgency butter_action = a_urgency paneer_action
   \<and> a_projected_stock_24h butter_action \<le> a_projected_stock_24h paneer_action"
proof -
  have eq: "a_urgency butter_action = a_urgency paneer_action"
    by (simp add: butter_action_def paneer_action_def)
  from schedule_totally_ordered [OF three_run, of 0 1]
  have "urgency_order (a_urgency butter_action) \<le> urgency_order (a_urgency milk_action)"
    by simp
  moreover from schedule_totally_ordered [OF three_run, of 1 2] eq
  have "a_projected_stock_24h butter_action \<le> a_projected_stock_24h paneer_action"
    by simp
  ultimately show ?thesis using three_run eq by simp
qed

theorem urgency_thresholds_witness:
  "generate_restocking_schedule zero_model snacks [chips] 72 = Inr [chips_action]
   \<and> a_current_stock chips_action = 50
   \<and> a_predicted_demand_24h chips_action = 0
   \<and> a_reorder_point chips_action = Some 50
   \<and> a_urgency chips_action = Medium
   \<and> (\<exists>item forecasts.
           item \<in> set [chips]
         \<and> forecast_demand zero_model snacks 72 = Inr forecasts
         \<and> a_current_stock chips_action = i_current_stock item
         \<and> a_product_name chips_action = i_product_name item
         \<and> (let projected_stock_24h =
                  i_current_stock item - predicted_demand_24h_of forecasts (i_category item)
            in a_projected_stock_24h chips_action = py_round projected_stock_24h 1
             \<and> a_urgency chips_action =
                 (if projected_stock_24h \<le> 0 then Critical
                  else case a_reorder_point chips_action of
                         None \<Rightarrow> Low
                       | Some reorder_point \<Rightarrow>
                           if projected_stock_24h \<le> 0.5 * reorder_point then High
                           else if projected_stock_24h \<le> reorder_point then Medium
                           else Low)))"
proof -
  have "chips_action \<in> set [chips_action]" by simp
  from urgency_thresholds [OF chips_run this] chips_run show ?thesis
    by (simp add: chips_action_def)
qed

text \<open>
  An item of 26 units against a forecast of 25 is projected at 1, below the reorder point
  \<open>2.1\<close>, so it needs restocking; its plan's maximum is \<open>10.8\<close>, and the suggested order
  is \<open>10.8 - 26\<close>.
\<close>

theorem suggested_order_qty_counterexample:
  "generate_restocking_schedule unit_model dairy [ghee] 72 = Inr [ghee_action]
   \<and> a_needs_restock ghee_action
   \<and> a_suggested_order_qty ghee_action = Some (- 15.2)
   \<and> (- 15.2 :: real) < 0"
  using ghee_run by (simp add: ghee_action_def)

lemma dairy_first_plan:
  assumes "calculate_optimal_stock_levels dairy [first] 0.95 = Inr ol"
      and "first \<in> set [first]"
      and "i_category first = ''Dairy''" "i_lead_time_hours first = 24"
          "i_storage_cost_per_unit first = 0"
      and "find (\<lambda>p. p_category p = i_category first \<and> p_dark_store_id p = i_dark_store_id first)
             ol = Some plan"
  shows "p_optimal_max_stock plan = Some 10.8"
proof -
  let ?cs = "\<lparr>st_mean = 5/4, st_std = Some (1/2), st_max = 2\<rparr>"
  from assms(1) have ol: "ol = [plan_row 0.95 ?cs first]"
    by (auto simp: calculate_optimal_stock_levels_def dairy_stats assms(3)
          split: sum.splits if_splits)
  have ms: "p_optimal_max_stock (plan_row 0.95 ?cs first) = Some 10.8"
    by (simp add: plan_row_sel z_score_def round1_def reorder_point_of_def safety_stock_of_def
          demand_std_of_def np_sqrt_def max_stock_of_def eoq_of_def assms(4,5) py_round_def
          round_half_even_def Let_def)
  from assms(6) have "plan = plan_row 0.95 ?cs first"
    unfolding ol by (simp add: plan_row_sel split: if_splits)
  with ms show ?thesis by simp
qed

theorem suggested_order_qty_value_witness:
  "generate_restocking_schedule unit_model dairy [milk] 72 = Inr [milk_action]
   \<and> a_needs_restock milk_action
   \<and> a_suggested_order_qty milk_action = Some (py_round (10.8 - 5) 1)
   \<and> (\<exists>q. a_suggested_order_qty milk_action = Some q \<and> 0 \<le> q)
   \<and> generate_restocking_schedule unit_model dairy [ghee] 72 = Inr [ghee_action]
   \<and> a_needs_restock ghee_action
   \<and> (\<exists>q. a_suggested_order_qty ghee_action = Some q \<and> q < 0)"
proof -
  have "milk_action \<in> set [milk_action]" by simp
  from suggested_order_qty_value [OF milk_run this] obtain item ol plan where
    item: "item \<in> set [milk]"
    and ol: "calculate_optimal_stock_levels dairy [milk] 0.95 = Inr ol"
    and plan: "find (\<lambda>p. p_category p = i_category item \<and> p_dark_store_id p = i_dark_store_id item)
                 ol = Some plan"
    and q: "a_suggested_order_qty milk_action =
               (if a_needs_restock milk_action
                then map_option (\<lambda>max_stock. py_round (max_stock - i_current_stock item) 1)
                       (p_optimal_max_stock plan)
                else Some 0)"
    and sg: "\<forall>max_stock. p_optimal_max_stock plan = Some max_stock \<longrightarrow>
               (\<exists>q. a_suggested_order_qty milk_action = Some q
                  \<and> (i_current_stock item \<le> max_stock + 0.05 \<longrightarrow> 0 \<le> q)
                  \<and> (a_needs_restock milk_action \<and> max_stock + 0.05 < i_current_stock item
                       \<longrightarrow> q < 0))"
    by (elim exE conjE) (rule that)
  from item have i: "item = milk" by simp
  have ms: "p_optimal_max_stock plan = Some 10.8"
    by (rule dairy_first_plan [OF ol [unfolded i] _ _ _ _ plan [unfolded i]])
       (simp_all add: milk_def)
  have r: "a_needs_restock milk_action" by (simp add: milk_action_def)
  have 1: "a_suggested_order_qty milk_action = Some (py_round (10.8 - 5) 1)"
    using q r unfolding ms i by (simp add: milk_def)
  from sg [rule_format, OF ms] obtain v where
    v: "a_suggested_order_qty milk_action = Some v"
    and nn: "i_current_stock item \<le> 10.8 + 0.05 \<longrightarrow> 0 \<le> v"
    by (elim exE conjE) (rule that)
  from nn have "0 \<le> v" unfolding i by (simp add: milk_def)
  with v have 2: "\<exists>q. a_suggested_order_qty milk_action = Some q \<and> 0 \<le> q"
    by (intro exI conjI)
  have "ghee_action \<in> set [ghee_action]" by simp
  from suggested_order_qty_value [OF ghee_run this] obtain item' ol' plan' where
    item': "item' \<in> set [ghee]"
    and ol': "calculate_optimal_stock_levels dairy [ghee] 0.95 = Inr ol'"
    and plan': "find (\<lambda>p. p_category p = i_category item' \<and> p_dark_store_id p = i_dark_store_id item')
                 ol' = Some plan'"
    and sg': "\<forall>max_stock. p_optimal_max_stock plan' = Some max_stock \<longrightarrow>
               (\<exists>q. a_suggested_order_qty ghee_action = Some q
                  \<and> (i_current_stock item' \<le> max_stock + 0.05 \<longrightarrow> 0 \<le> q)
                  \<and> (a_needs_restock ghee_action \<and> max_stock + 0.05 < i_current_stock item'
                       \<longrightarrow> q < 0))"
    by (elim exE conjE) (rule that)
  from item' have i': "item' = ghee" by simp
  have ms': "p_optimal_max_stock plan' = Some 10.8"
    by (rule dairy_first_plan [OF ol' [unfolded i'] _ _ _ _ plan' [unfolded i']])
       (simp_all add: ghee_def)
  have r': "a_needs_restock ghee_action" by (simp add: ghee_action_def)
  from sg' [rule_format, OF ms'] obtain w where
    w: "a_suggested_order_qty ghee_action = Some w"
    and ng: "a_needs_restock ghee_action \<and> 10.8 + 0.05 < i_current_stock item' \<longrightarrow> w < 0"
    by (elim exE conjE) (rule that)
  from ng r' have "w < 0" unfolding i' by (simp add: ghee_def)
  with w have 3: "\<exists>q. a_suggested_order_qty ghee_action = Some q \<and> q < 0"
    by (intro exI conjI)
  from milk_run r 1 2 ghee_run r' 3 show ?thesis by (intro conjI)
qed

lemma curd_run:
  "generate_restocking_schedule unit_model dairy [curd] 72 = Inr [curd_action]"
proof -
  from dairy_forecast obtain fs where fs: "forecast_demand unit_model dairy 72 = Inr fs"
    and pd: "predicted_demand_24h_of fs ''Dairy'' = 25" by blast
  obtain ol where ol: "calculate_optimal_stock_levels dairy [curd] 0.95 = Inr ol"
    using dairy_plans [of "[curd]"] by (auto simp: curd_def)
  have "restock_row fs ol curd = Some curd_action"
    by (subst dairy_restock_row [OF pd ol])
       (simp_all add: curd_def curd_action_def urgency_of_def suggested_order_of_def round1_def
          py_round_def round_half_even_def Let_def)
  then have rows: "List.map_filter (restock_row fs ol) [curd] = [curd_action]"
    by (simp add: List.map_filter_def)
  from schedule_eval [OF fs _ ol rows] show ?thesis
    by (simp add: sort_values_def)
qed

text \<open>
  With a stock of \<open>27.14\<close> and a forecast of \<open>25\<close> the projected stock \<open>2.14\<close> is above the
  reorder point \<open>2.1\<close>: the action is Low, and its \<open>projected_stock_24h\<close> reads \<open>2.1\<close>, equal
  to the \<open>reorder_point\<close> beside it, for which the thresholds say Medium.
\<close>

theorem urgency_on_rounded_projection_counterexample:
  "generate_restocking_schedule unit_model dairy [curd] 72 = Inr [curd_action]
   \<and> a_projected_stock_24h curd_action = 2.1
   \<and> a_reorder_point curd_action = Some 2.1
   \<and> a_urgency curd_action = Low"
  using curd_run by (simp add: curd_action_def)

text \<open>
  C3. The aggregate that the code calls the next 24 hours keeps the forecast rows up to
  24 hours after the first forecast timestamp, both ends included. The first forecast
  is one hour after the last observation, so with the default horizon of 72 hours the
  rows of hours 1 to 25 are summed: a model that predicts one unit per hour gives
  \<open>predicted_demand_24h = 25\<close>, where the sum of the first 24 hourly points is 24.
\<close>

theorem predicted_demand_sums_25_hours:
  "generate_restocking_schedule unit_model dairy [milk] 72 = Inr [milk_action]
   \<and> a_predicted_demand_24h milk_action = 25
   \<and> (\<exists>forecasts. forecast_demand unit_model dairy 72 = Inr forecasts
         \<and> length forecasts = 72
         \<and> length (next_24h_demand forecasts) = 25
         \<and> predicted_demand_24h_of forecasts ''Dairy'' = 25)"
proof -
  let ?fs = "concat (map (\<lambda>(category, model). map (forecast_point_of dairy category model)
                          (future_timestamps dairy 72)) unit_model)"
  have fs: "forecast_demand unit_model dairy 72 = Inr ?fs"
    by (simp add: forecast_demand_def unit_model_def dairy_def)
  from dairy_forecast fs have pd: "predicted_demand_24h_of ?fs ''Dairy'' = 25" by simp
  have l: "length ?fs = 72"
    by (simp add: unit_model_def future_timestamps_def)
  have "length (next_24h_demand ?fs) = 25"
    unfolding next_24h_demand_forecast [OF fs, simplified]
    by (simp add: unit_model_def future_timestamps_def)
  with fs pd l milk_run show ?thesis
    by (auto simp: milk_action_def)
qed

subsection \<open>The cost estimate\<close>

lemma demand_dict_absent:
  assumes "c \<notin> set (map d_category sample_data)"
  shows "demand_dict sample_data c = None"
proof -
  have "\<forall>r \<in> set sample_data. d_category r \<noteq> c"
    using assms by force
  then have "group_values sample_data c = []"
    by (simp add: group_values_def filter_empty_conv)
  then show ?thesis by (simp add: demand_dict_def)
qed

lemma stockout_cost_absent:
  assumes "demand_dict sample_data (i_category row) = None"
  shows "stockout_cost_of (demand_dict sample_data) row
           = max 0 ((10 - i_current_stock row) / 10) * 10 * 5"
  using assms by (simp add: stockout_cost_of_def Let_def)

text \<open>
  C10. The cost estimate has no raising step: the lookup of the average demand has a
  default and the division a guard. For an inventory row whose category does not occur
  in the demand table, \<^verbatim>\<open>demand_dict.get(category, 10)\<close> supplies the average demand 10,
  so the row's stockout cost is \<open>max(0, (10 - current_stock) / 10) \<sqdot> 10 \<sqdot> 5\<close>. The column
  of stockout costs has one entry per inventory row, and the returned
  \<open>total_stockout_cost_daily\<close> is its sum, rounded to two decimals. The row's category and
  store both have an entry in the returned summaries, and where no product of stock and
  storage cost leaves the 64-bit range the entry of the category is the sum, rounded to
  two decimals, of holding cost and default-based stockout cost over its rows.
\<close>

theorem absent_category_default_demand:
  assumes "i < length inventory_data"
      and "i_category (inventory_data ! i) \<notin> set (map d_category sample_data)"
  shows "stockout_costs sample_data inventory_data ! i
           = max 0 ((10 - i_current_stock (inventory_data ! i)) / 10) * 10 * 5
       \<and> length (stockout_costs sample_data inventory_data) = length inventory_data
       \<and> total_stockout_cost_daily (calculate_inventory_costs sample_data inventory_data)
           = py_round (sum_list (stockout_costs sample_data inventory_data)) 2
       \<and> cost_by_category (calculate_inventory_costs sample_data inventory_data)
            (i_category (inventory_data ! i)) \<noteq> None
       \<and> cost_by_store (calculate_inventory_costs sample_data inventory_data)
            (i_dark_store_id (inventory_data ! i)) \<noteq> None
       \<and> ((\<forall>row \<in> set inventory_data.
               \<bar>i_current_stock row * i_storage_cost_per_unit row\<bar> < 2 ^ 63)
            \<longrightarrow> cost_by_category (calculate_inventory_costs sample_data inventory_data)
                  (i_category (inventory_data ! i))
                = Some (py_round
                    (sum_list
                       (map (\<lambda>row. holding_cost_of row
                                     + max 0 ((10 - i_current_stock row) / 10) * 10 * 5)
                          (filter (\<lambda>row. i_category row = i_category (inventory_data ! i))
                             inventory_data))) 2))"
proof -
  let ?c = "i_category (inventory_data ! i)"
  let ?rows = "filter (\<lambda>row. i_category row = ?c) inventory_data"
  have d: "demand_dict sample_data ?c = None"
    using assms(2) by (rule demand_dict_absent)
  have m: "inventory_data ! i \<in> set inventory_data" using assms(1) by simp
  then have ne: "?rows \<noteq> []"
    "filter (\<lambda>row. i_dark_store_id row = i_dark_store_id (inventory_data ! i)) inventory_data \<noteq> []"
    by (auto simp: filter_empty_conv)
  have 1: "stockout_costs sample_data inventory_data ! i
           = max 0 ((10 - i_current_stock (inventory_data ! i)) / 10) * 10 * 5"
    using assms(1) by (simp add: stockout_costs_def stockout_cost_absent [OF d])
  have 2: "length (stockout_costs sample_data inventory_data) = length inventory_data"
    by (simp add: stockout_costs_def)
  have 3: "total_stockout_cost_daily (calculate_inventory_costs sample_data inventory_data)
           = py_round (sum_list (stockout_costs sample_data inventory_data)) 2"
    by (simp add: calculate_inventory_costs_def)
  have 4: "cost_by_category (calculate_inventory_costs sample_data inventory_data) ?c \<noteq> None"
    "cost_by_store (calculate_inventory_costs sample_data inventory_data)
            (i_dark_store_id (inventory_data ! i)) \<noteq> None"
    using ne by (simp_all add: calculate_inventory_costs_def cost_by_def Let_def)
  have "total_cost_of sample_data row
          = holding_cost_of row + max 0 ((10 - i_current_stock row) / 10) * 10 * 5"
    if "row \<in> set ?rows" for row
  proof -
    from that have "i_category row = ?c" by simp
    with d have "demand_dict sample_data (i_category row) = None" by simp
    then show ?thesis by (simp add: total_cost_of_def stockout_cost_absent)
  qed
  then have meq: "map (total_cost_of sample_data) ?rows
      = map (\<lambda>row. holding_cost_of row + max 0 ((10 - i_current_stock row) / 10) * 10 * 5) ?rows"
    by (intro map_cong) simp_all
  have cb: "cost_by_category (calculate_inventory_costs sample_data inventory_data) ?c
              = Some (py_round (sum_list (map (total_cost_of sample_data) ?rows)) 2)"
    using ne(1) by (simp add: calculate_inventory_costs_def cost_by_def Let_def)
  have 5: "cost_by_category (calculate_inventory_costs sample_data inventory_data) ?c
                = Some (py_round
                    (sum_list
                       (map (\<lambda>row. holding_cost_of row
                                     + max 0 ((10 - i_current_stock row) / 10) * 10 * 5)
                          ?rows)) 2)"
    by (simp only: cb meq)
  from 1 2 3 4 5 show ?thesis by (intro conjI impI)
qed

theorem absent_category_default_demand_witness:
  "(1::nat) < length [milk, truffle]
   \<and> i_category ([milk, truffle] ! 1) \<notin> set (map d_category dairy)
   \<and> stockout_costs dairy [milk, truffle] ! 1 = 30
   \<and> length (stockout_costs dairy [milk, truffle]) = 2
   \<and> total_stockout_cost_daily (calculate_inventory_costs dairy [milk, truffle]) = 30
   \<and> cost_by_category (calculate_inventory_costs dairy [milk, truffle]) ''Gourmet'' = Some 30.8
   \<and> cost_by_store (calculate_inventory_costs dairy [milk, truffle]) ''DS3'' = Some 30.8"
proof -
  have h1: "(1::nat) < length [milk, truffle]" by simp
  have h2: "i_category ([milk, truffle] ! 1) \<notin> set (map d_category dairy)"
    by (simp add: truffle_def dairy_def)
  have h3: "\<forall>row \<in> set [milk, truffle].
               \<bar>i_current_stock row * i_storage_cost_per_unit row\<bar> < 2 ^ 63"
    by (simp add: milk_def truffle_def)
  note t = absent_category_default_demand [OF h1 h2]
  have c: "i_category ([milk, truffle] ! 1) = ''Gourmet''" by (simp add: truffle_def)
  have 1: "stockout_costs dairy [milk, truffle] ! 1 = 30"
    using t [THEN conjunct1] by (simp add: truffle_def)
  have 2: "length (stockout_costs dairy [milk, truffle]) = 2"
    using t [THEN conjunct2, THEN conjunct1] by simp
  have dd: "demand_dict dairy c = (if c = ''Dairy'' then Some (5/4) else None)" for c
    by (simp add: demand_dict_def group_values_def dairy_def mean_def)
  have s0: "stockout_costs dairy [milk, truffle] = [0, 30]"
    by (simp add: stockout_costs_def stockout_cost_of_def dd milk_def truffle_def Let_def)
  have r30: "py_round 30 2 = 30" "py_round (154/5) 2 = 154/5"
    by (simp_all add: py_round_def round_half_even_def Let_def)
  have 3: "total_stockout_cost_daily (calculate_inventory_costs dairy [milk, truffle]) = 30"
    using t [THEN conjunct2, THEN conjunct2, THEN conjunct1] unfolding s0 by (simp add: r30)
  from t [THEN conjunct2, THEN conjunct2, THEN conjunct2, THEN conjunct2, THEN conjunct2,
      THEN mp, OF h3]
  have "cost_by_category (calculate_inventory_costs dairy [milk, truffle]) ''Gourmet''
          = Some (py_round
                    (sum_list
                       (map (\<lambda>row. holding_cost_of row
                                     + max 0 ((10 - i_current_stock row) / 10) * 10 * 5)
                          (filter (\<lambda>row. i_category row = ''Gourmet'') [milk, truffle]))) 2)"
    unfolding c .
  then have 4: "cost_by_category (calculate_inventory_costs dairy [milk, truffle]) ''Gourmet''
          = Some 30.8"
    by (simp add: milk_def truffle_def holding_cost_of_def r30)
  have 5: "cost_by_store (calculate_inventory_costs dairy [milk, truffle]) ''DS3'' = Some 30.8"
    by (simp add: calculate_inventory_costs_def cost_by_def total_cost_of_def holding_cost_of_def
          stockout_cost_of_def dd milk_def truffle_def Let_def r30)
  from h1 h2 1 2 3 4 5 show ?thesis by (intro conjI)
qed

subsection \<open>Feature building\<close>

lemma first_available_Nil [simp]: "first_available [] = None"
  by (simp add: first_available_def)

lemma first_available_Cons [simp]:
  "first_available (x # xs) = (case x of Some v \<Rightarrow> Some v | None \<Rightarrow> first_available xs)"
  by (cases x) (simp_all add: first_available_def)

lemma first_available_append:
  "first_available (xs @ ys) =
     (case first_available xs of Some v \<Rightarrow> Some v | None \<Rightarrow> first_available ys)"
  by (induction xs) (auto split: option.splits)

lemma first_available_None_iff: "first_available xs = None \<longleftrightarrow> (\<forall>x \<in> set xs. x = None)"
  by (induction xs) (auto split: option.splits)

lemma length_bfill [simp]: "length (bfill xs) = length xs"
  by (induction xs rule: bfill.induct) simp_all

lemma bfill_head: "(case bfill xs of [] \<Rightarrow> None | y # _ \<Rightarrow> y) = first_available xs"
  by (induction xs rule: bfill.induct) simp_all

lemma bfill_Cons:
  "bfill (x # xs) = first_available (x # xs) # bfill xs"
  by (cases x) (simp_all add: bfill_head)

lemma length_ffill_from [simp]: "length (ffill_from prev xs) = length xs"
  by (induction prev xs rule: ffill_from.induct) simp_all

lemma ffill_from_Cons:
  "ffill_from prev (x # xs) =
     (case x of Some v \<Rightarrow> Some v | None \<Rightarrow> prev)
       # ffill_from (case x of Some v \<Rightarrow> Some v | None \<Rightarrow> prev) xs"
  by (cases x) simp_all

lemma ffill_bfill_nth:
  "i < length col \<Longrightarrow>
     ffill_from prev (bfill col) ! i =
       (case fill_value col i of Some v \<Rightarrow> Some v | None \<Rightarrow> prev)"
proof (induction col arbitrary: prev i)
  case Nil
  then show ?case by simp
next
  case (Cons x xs)
  show ?case
  proof (cases i)
    case 0
    then show ?thesis
      by (simp add: bfill_Cons ffill_from_Cons fill_value_def split: option.splits)
  next
    case (Suc n)
    with Cons.prems have n: "n < length xs" by simp
    have key: "first_available xs = None"
      if "first_available (drop n xs) = None" "first_available (rev (take n xs)) = None"
    proof -
      from that have "\<forall>x \<in> set (take n xs) \<union> set (drop n xs). x = None"
        by (auto simp: first_available_None_iff)
      moreover have "set (take n xs) \<union> set (drop n xs) = set xs"
        by (metis append_take_drop_id set_append)
      ultimately show ?thesis by (simp add: first_available_None_iff)
    qed
    have lhs: "ffill_from prev (bfill (x # xs)) ! i =
        (case fill_value xs n of
           Some v \<Rightarrow> Some v
         | None \<Rightarrow> (case first_available (x # xs) of Some v \<Rightarrow> Some v | None \<Rightarrow> prev))"
      unfolding Suc bfill_Cons ffill_from_Cons nth_Cons_Suc by (rule Cons.IH [OF n])
    show ?thesis
    proof (cases "first_available (drop n xs)")
      case (Some v)
      then show ?thesis unfolding lhs by (simp add: Suc fill_value_def)
    next
      case None
      note d = this
      show ?thesis
      proof (cases "first_available (rev (take n xs))")
        case (Some v)
        with d show ?thesis unfolding lhs
          by (simp add: Suc fill_value_def first_available_append)
      next
        case None
        with d key have "first_available xs = None" by simp
        with d None show ?thesis unfolding lhs
          by (simp add: Suc fill_value_def first_available_append split: option.splits)
      qed
    qed
  qed
qed

lemma fillna_nth:
  "i < length col \<Longrightarrow> fillna_bfill_ffill col ! i = fill_value col i"
  unfolding fillna_bfill_ffill_def ffill_def
  by (simp add: ffill_bfill_nth split: option.splits)

lemma fill_value_Some:
  assumes "Some v \<in> set col"
  shows "fill_value col i \<noteq> None"
proof
  assume "fill_value col i = None"
  then have "first_available (drop i col) = None" "first_available (rev (take i col)) = None"
    by (auto simp: fill_value_def split: option.splits)
  then have "\<forall>x \<in> set (take i col) \<union> set (drop i col). x = None"
    by (auto simp: first_available_None_iff)
  moreover have "set (take i col) \<union> set (drop i col) = set col"
    by (metis append_take_drop_id set_append)
  ultimately show False using assms by auto
qed

lemma length_assign_column [simp]: "length (assign_column col idx vals) = length col"
proof -
  have "length (fold (\<lambda>(i, v) c. c[i := v]) ps col) = length col" for ps :: "(nat \<times> 'a option) list"
    by (induction ps arbitrary: col) (auto split: prod.splits)
  then show ?thesis by (simp add: assign_column_def)
qed

lemma length_lag_columns:
  assumes "lag_columns data = (lag_1, lag_2, ma_3)"
  shows "length lag_1 = length data \<and> length lag_2 = length data \<and> length ma_3 = length data"
proof -
  let ?step = "\<lambda>category (lag_1, lag_2, ma_3).
             let idx = category_index data category;
                 dq = category_demand data category
             in (assign_column lag_1 idx (shift 1 dq),
                 assign_column lag_2 idx (shift 2 dq),
                 assign_column ma_3 idx (rolling_mean_3 dq))"
  have "length (fst (fold ?step cs s)) = length (fst s)
      \<and> length (fst (snd (fold ?step cs s))) = length (fst (snd s))
      \<and> length (snd (snd (fold ?step cs s))) = length (snd (snd s))"
    for cs and s :: "real option list \<times> real option list \<times> real option list"
    by (induction cs arbitrary: s) (simp_all add: Let_def case_prod_beta)
  from this [of "unique (map d_category data)" "(replicate (length data) None,
      replicate (length data) None, replicate (length data) None)"] assms
  show ?thesis by (simp add: lag_columns_def)
qed

lemma create_demand_features_nth:
  assumes "lag_columns data = (lag_1, lag_2, ma_3)" "i < length data"
  shows "x_demand_lag_1 (create_demand_features data ! i) = fill_value lag_1 i"
    "x_demand_lag_2 (create_demand_features data ! i) = fill_value lag_2 i"
    "x_demand_ma_3 (create_demand_features data ! i) = fill_value ma_3 i"
    "x_category (create_demand_features data ! i) = d_category (data ! i)"
    "x_timestamp (create_demand_features data ! i) = d_timestamp (data ! i)"
    "x_demand_quantity (create_demand_features data ! i) = d_demand_quantity (data ! i)"
  using assms length_lag_columns [OF assms(1)]
  by (simp_all add: create_demand_features_def Let_def fillna_nth)

text \<open>
  C7, as the code has it. The lag columns are filled over the whole table in its row
  order, not category by category: a row takes the first value at or below it in the
  column, from whatever category that row is, or else the last value above it; and a
  column with at least one computed value anywhere in the table keeps no missing value.
\<close>

theorem lag_fill_whole_table:
  assumes "lag_columns data = (lag_1, lag_2, ma_3)" and "i < length data"
  shows "x_demand_lag_1 (create_demand_features data ! i) = fill_value lag_1 i
       \<and> x_demand_lag_2 (create_demand_features data ! i) = fill_value lag_2 i
       \<and> x_demand_ma_3 (create_demand_features data ! i) = fill_value ma_3 i
       \<and> ((\<exists>v. Some v \<in> set lag_1) \<longrightarrow> x_demand_lag_1 (create_demand_features data ! i) \<noteq> None)
       \<and> ((\<exists>v. Some v \<in> set lag_2) \<longrightarrow> x_demand_lag_2 (create_demand_features data ! i) \<noteq> None)
       \<and> ((\<exists>v. Some v \<in> set ma_3) \<longrightarrow> x_demand_ma_3 (create_demand_features data ! i) \<noteq> None)"
  unfolding create_demand_features_nth [OF assms]
  using fill_value_Some [of _ lag_1 i] fill_value_Some [of _ lag_2 i] fill_value_Some [of _ ma_3 i]
  by blast

lemma interleaved_lag_columns:
  "lag_columns interleaved =
     ([None, None, Some 5, Some 7], [None, None, None, None], [None, None, None, None])"
  by (simp add: lag_columns_def interleaved_def unique_def category_index_def category_demand_def
        assign_column_def shift_def rolling_mean_3_def upt_rec)

theorem lag_fill_whole_table_witness:
  "lag_columns interleaved =
     ([None, None, Some 5, Some 7], [None, None, None, None], [None, None, None, None])
   \<and> x_demand_lag_1 (create_demand_features interleaved ! 1) = Some 5
   \<and> x_demand_lag_2 (create_demand_features interleaved ! 1) = None"
proof -
  have h: "(1::nat) < length interleaved" by (simp add: interleaved_def)
  from lag_fill_whole_table [OF interleaved_lag_columns h] interleaved_lag_columns
  show ?thesis by (simp add: fill_value_def)
qed

text \<open>
  With the two categories interleaved, the first Snacks row has no earlier observation
  of its own; the first lag the Snacks series has is \<open>7\<close>, and the row is filled with
  \<open>5\<close>, the lag of the Dairy row below it.
\<close>

theorem lag_fill_crosses_categories_counterexample:
  "x_category (create_demand_features interleaved ! 1) = ''Snacks''
   \<and> category_lag_1 interleaved ''Snacks'' = [None, Some 7]
   \<and> first_available (category_lag_1 interleaved ''Snacks'') = Some 7
   \<and> x_demand_lag_1 (create_demand_features interleaved ! 1) = Some 5"
proof -
  have h: "(1::nat) < length interleaved" by (simp add: interleaved_def)
  have "category_lag_1 interleaved ''Snacks'' = [None, Some 7]"
    by (simp add: category_lag_1_def category_demand_def category_index_def interleaved_def
          shift_def upt_rec)
  moreover have "x_category (create_demand_features interleaved ! 1) = ''Snacks''"
    unfolding create_demand_features_nth [OF interleaved_lag_columns h]
    by (simp add: interleaved_def)
  moreover have "x_demand_lag_1 (create_demand_features interleaved ! 1) = Some 5"
    unfolding create_demand_features_nth [OF interleaved_lag_columns h]
    by (simp add: fill_value_def)
  ultimately show ?thesis by simp
qed

subsection \<open>Training\<close>

lemma split_idx_small: "n < 2 \<Longrightarrow> split_idx n = 0"
proof -
  assume "n < 2"
  then have "n = 0 \<or> n = 1" by auto
  then show ?thesis by (auto simp: split_idx_def)
qed

lemma split_idx_pos: "2 \<le> n \<Longrightarrow> 0 < split_idx n"
proof -
  assume "2 \<le> n"
  then have "1 \<le> real n * 0.8" by simp
  then have "1 \<le> \<lfloor>real n * 0.8\<rfloor>" by (simp add: le_floor_iff)
  then show ?thesis by (simp add: split_idx_def)
qed

lemma split_idx_less: "0 < n \<Longrightarrow> split_idx n < n"
proof -
  assume "0 < n"
  then have "real n * 0.8 < real n" by simp
  then have "\<lfloor>real n * 0.8\<rfloor> < int n" by (simp add: floor_less_iff)
  then show ?thesis unfolding split_idx_def by linarith
qed

lemma train_category_error_iff:
  "train_category fit xy = Inl e \<longleftrightarrow> e = ValueError \<and> length xy < 2"
proof (cases "length xy < 2")
  case True
  then show ?thesis by (auto simp: train_category_def Let_def split_idx_small)
next
  case False
  then have "0 < split_idx (length xy)" "xy \<noteq> []" using split_idx_pos [of "length xy"] by auto
  with False show ?thesis by (auto simp: train_category_def Let_def)
qed

lemma train_category_Inr:
  assumes "train_category fit xy = Inr (model, perf)"
  shows "2 \<le> length xy
       \<and> perf = evaluate (y_test_of xy) (map model (drop (split_idx (length xy)) (map fst xy)))"
proof -
  have "\<not> length xy < 2"
    using assms train_category_error_iff [of fit xy ValueError] by auto
  moreover have "perf = evaluate (y_test_of xy) (map model (drop (split_idx (length xy)) (map fst xy)))"
    using assms by (auto simp: train_category_def Let_def y_test_of_def split: if_splits)
  ultimately show ?thesis by simp
qed

lemma train_categories_Inr:
  "train_categories fit d cs = Inr models \<Longrightarrow>
     map fst models = cs
     \<and> (\<forall>(c, t) \<in> set models. train_category fit (category_xy d c) = Inr t)"
  by (induction cs arbitrary: models) (auto split: sum.splits)

lemma train_categories_error:
  "c \<in> set cs \<Longrightarrow> length (category_xy d c) < 2 \<Longrightarrow> train_categories fit d cs = Inl ValueError"
proof (induction cs)
  case Nil then show ?case by simp
next
  case (Cons a cs)
  show ?case
  proof (cases "train_category fit (category_xy d a)")
    case (Inl e)
    then show ?thesis using train_category_error_iff [of fit "category_xy d a" e] by simp
  next
    case (Inr t)
    then have "\<not> length (category_xy d a) < 2"
      using train_category_error_iff [of fit "category_xy d a" ValueError] by auto
    with Cons.prems have "c \<in> set cs" by auto
    with Cons Inr show ?thesis by simp
  qed
qed

lemma map_x_category: "map x_category (create_demand_features data) = map d_category data"
proof (rule nth_equalityI)
  show "length (map x_category (create_demand_features data)) = length (map d_category data)"
    by (simp add: create_demand_features_def split: prod.splits)
next
  fix i assume "i < length (map x_category (create_demand_features data))"
  then have i: "i < length data" by (simp add: create_demand_features_def split: prod.splits)
  obtain a b c where "lag_columns data = (a, b, c)" by (cases "lag_columns data")
  from create_demand_features_nth(4) [OF this i] i
  show "map x_category (create_demand_features data) ! i = map d_category data ! i"
    by (simp add: create_demand_features_def split: prod.splits)
qed

text \<open>
  C5, as the code has it. Training has no minimum number of feature rows and skips
  nothing. A call that returns has stored a model, with its metrics, for every category
  of the demand table, in order of first appearance; a category with fewer than two
  feature rows leaves the training split empty, the library raises, and the whole call
  ends with that exception: there is no warning and no list of skipped categories.
\<close>

theorem training_skips_no_category:
  "(\<forall>models. train_demand_forecasting_models fit sample_data = Inr models
       \<longrightarrow> map fst models = unique (map d_category sample_data))
   \<and> (\<forall>category \<in> set (map d_category sample_data).
         length (category_xy (create_demand_features sample_data) category) < 2
       \<longrightarrow> train_demand_forecasting_models fit sample_data = Inl ValueError)"
proof (intro conjI allI impI ballI)
  fix models assume "train_demand_forecasting_models fit sample_data = Inr models"
  then show "map fst models = unique (map d_category sample_data)"
    using train_categories_Inr
    unfolding train_demand_forecasting_models_def Let_def map_x_category by blast
next
  fix category
  assume "category \<in> set (map d_category sample_data)"
    and "length (category_xy (create_demand_features sample_data) category) < 2"
  moreover from this have "category \<in> set (unique (map d_category sample_data))"
    by (simp add: unique_def)
  ultimately show "train_demand_forecasting_models fit sample_data = Inl ValueError"
    unfolding train_demand_forecasting_models_def Let_def map_x_category
    by (intro train_categories_error)
qed


lemma short_series_lag_columns:
  "lag_columns short_series =
     ([None, Some 1, Some 1], [None, None, Some 1], [None, None, Some 1])"
  by (simp add: lag_columns_def short_series_def unique_def category_index_def category_demand_def
        assign_column_def shift_def rolling_mean_3_def upt_rec)

lemma sold_out_lag_columns:
  "lag_columns sold_out =
     ([None, Some 10, Some 10, Some 10, Some 10], [None, None, Some 10, Some 10, Some 10],
      [None, None, Some 10, Some 10, Some (20/3)])"
  by (simp add: lag_columns_def sold_out_def unique_def category_index_def category_demand_def
        assign_column_def shift_def rolling_mean_3_def upt_rec)

lemma short_series_y:
  "map snd (category_xy (create_demand_features short_series) ''Dairy'') = [1, 1, 1]"
  unfolding category_xy_def create_demand_features_def short_series_lag_columns prod.case
  by (simp add: fillna_bfill_ffill_def ffill_def feature_vector_def List.map_filter_def upt_rec
        short_series_def Let_def)

lemma sold_out_y:
  "map snd (category_xy (create_demand_features sold_out) ''Dairy'') = [10, 10, 10, 10, 0]"
  unfolding category_xy_def create_demand_features_def sold_out_lag_columns prod.case
  by (simp add: fillna_bfill_ffill_def ffill_def feature_vector_def List.map_filter_def upt_rec
        sold_out_def Let_def)


lemma train_category_fit_mean:
  assumes "2 \<le> length xy"
  shows "train_category fit_mean xy =
     Inr (\<lambda>x. mean (take (split_idx (length xy)) (map snd xy)),
          evaluate (y_test_of xy)
            (replicate (length (y_test_of xy)) (mean (take (split_idx (length xy)) (map snd xy)))))"
proof -
  from assms have "0 < split_idx (length xy)" "xy \<noteq> []"
    using split_idx_pos [of "length xy"] by auto
  then show ?thesis
    by (simp add: train_category_def Let_def fit_mean_def y_test_of_def map_replicate_const)
qed

lemma performance_single_category_fit_mean:
  assumes "unique (map d_category data) = [c]"
      and "map snd (category_xy (create_demand_features data) c) = ys"
      and "2 \<le> length ys"
  shows "models_performance fit_mean data =
     Inr [(c, evaluate (drop (split_idx (length ys)) ys)
                (replicate (length ys - split_idx (length ys))
                   (mean (take (split_idx (length ys)) ys))))]"
proof -
  let ?xy = "category_xy (create_demand_features data) c"
  have l: "length ?xy = length ys" using assms(2) by (metis length_map)
  with assms(3) have "2 \<le> length ?xy" by simp
  from train_category_fit_mean [OF this] show ?thesis
    unfolding models_performance_def train_demand_forecasting_models_def Let_def
      map_x_category assms(1)
    by (simp add: y_test_of_def assms(2) l)
qed

lemma sqrt_100: "sqrt 100 = 10"
  by (rule real_sqrt_unique) (simp_all add: power2_eq_square)

lemma short_series_performance:
  "models_performance fit_mean short_series
     = Inr [(''Dairy'', \<lparr>MAE = 0, RMSE = 0, MAPE = Finite 0\<rparr>)]"
proof -
  have u: "unique (map d_category short_series) = [''Dairy'']"
    by (simp add: unique_def short_series_def)
  have l: "2 \<le> length [1, 1, 1 :: real]" by simp
  have k: "split_idx 3 = 2" by (simp add: split_idx_def)
  have m: "mean [1, 1] = 1" by (simp add: mean_def)
  have e: "evaluate [1] [1] = \<lparr>MAE = 0, RMSE = 0, MAPE = Finite 0\<rparr>"
    by (simp add: evaluate_def mean_def abs_pct_error_def np_mean_def py_round_def
          round_half_even_def Let_def)
  have "models_performance fit_mean short_series =
     Inr [(''Dairy'', evaluate (drop (split_idx (length [1, 1, 1 :: real])) [1, 1, 1])
                (replicate (length [1, 1, 1 :: real] - split_idx (length [1, 1, 1 :: real]))
                   (mean (take (split_idx (length [1, 1, 1 :: real])) [1, 1, 1]))))]"
    by (rule performance_single_category_fit_mean [OF u short_series_y l])
  also have "length [1, 1, 1 :: real] = 3" by simp
  finally show ?thesis by (simp add: k m e)
qed

lemma sold_out_performance:
  "models_performance fit_mean sold_out
     = Inr [(''Dairy'', \<lparr>MAE = 10, RMSE = 10, MAPE = PosInf\<rparr>)]"
proof -
  have u: "unique (map d_category sold_out) = [''Dairy'']"
    by (simp add: unique_def sold_out_def)
  have l: "2 \<le> length [10, 10, 10, 10, 0 :: real]" by simp
  have k: "split_idx 5 = 4" by (simp add: split_idx_def)
  have m: "mean [10, 10, 10, 10] = 10" by (simp add: mean_def)
  have e: "evaluate [0] [10] = \<lparr>MAE = 10, RMSE = 10, MAPE = PosInf\<rparr>"
    by (simp add: evaluate_def mean_def abs_pct_error_def np_mean_def py_round_def
          round_half_even_def Let_def sqrt_100)
  have "models_performance fit_mean sold_out =
     Inr [(''Dairy'', evaluate (drop (split_idx (length [10, 10, 10, 10, 0 :: real])) [10, 10, 10, 10, 0])
                (replicate (length [10, 10, 10, 10, 0 :: real] - split_idx (length [10, 10, 10, 10, 0 :: real]))
                   (mean (take (split_idx (length [10, 10, 10, 10, 0 :: real])) [10, 10, 10, 10, 0]))))]"
    by (rule performance_single_category_fit_mean [OF u sold_out_y l])
  also have "length [10, 10, 10, 10, 0 :: real] = 5" by simp
  finally show ?thesis by (simp add: k m e)
qed

lemma single_observation_xy:
  "category_xy (create_demand_features single_observation) ''Dairy'' = []"
proof -
  have "lag_columns single_observation = ([None], [None], [None])"
    by (simp add: lag_columns_def single_observation_def unique_def category_index_def
          category_demand_def assign_column_def shift_def rolling_mean_3_def upt_rec)
  then show ?thesis
    unfolding category_xy_def create_demand_features_def
    by (simp add: fillna_bfill_ffill_def ffill_def feature_vector_def List.map_filter_def
          single_observation_def Let_def)
qed

lemma abs_pct_errors_finite:
  assumes "0 \<notin> set ys"
  shows "map (\<lambda>(t, p). abs_pct_error t p) (zip ys ps)
           = map Finite (map (\<lambda>(t, p). \<bar>(t - p) / t\<bar>) (zip ys ps))"
proof -
  have "(case x of (t, p) \<Rightarrow> abs_pct_error t p) = Finite (case x of (t, p) \<Rightarrow> \<bar>(t - p) / t\<bar>)"
    if "x \<in> set (zip ys ps)" for x
  proof -
    obtain t p where x: "x = (t, p)" by (cases x)
    with that have "t \<in> set ys" by (auto dest: set_zip_leftD)
    with assms have "t \<noteq> 0" by auto
    then show ?thesis by (simp add: x abs_pct_error_def)
  qed
  then show ?thesis by (simp add: comp_def)
qed

lemma finite_values_map: "finite_values (map Finite rs) = rs"
  by (induction rs) simp_all

lemma np_mean_finite:
  "rs \<noteq> [] \<Longrightarrow> np_mean (map Finite rs) = Finite (mean rs)"
proof -
  assume ne: "rs \<noteq> []"
  have "filter (\<lambda>v. v \<noteq> NaN) (map Finite rs) = map Finite rs"
    by (induction rs) simp_all
  moreover have "PosInf \<notin> set (map Finite rs)" by auto
  ultimately show ?thesis using ne by (simp add: np_mean_def finite_values_map)
qed

lemma evaluate_MAPE:
  "MAPE (evaluate ys ps) =
     np_scale_round (np_mean (map (\<lambda>(t, p). abs_pct_error t p) (zip ys ps))) 100 2"
  by (simp add: evaluate_def Let_def)

lemma evaluate_mape_finite:
  assumes "0 \<notin> set ys" "length ps = length ys" "ys \<noteq> []"
  shows "\<exists>m. MAPE (evaluate ys ps) = Finite m \<and> 0 \<le> m"
proof -
  let ?rs = "map (\<lambda>(t, p). \<bar>(t - p) / t\<bar>) (zip ys ps)"
  have "length ?rs = length ys" using assms(2) by simp
  with assms(3) have ne: "?rs \<noteq> []" by (metis length_0_conv)
  have "\<forall>r \<in> set ?rs. 0 \<le> r" by auto
  then have "0 \<le> mean ?rs" by (rule mean_nonneg)
  then have "0 \<le> mean ?rs * 100" by simp
  then have nn: "0 \<le> py_round (mean ?rs * 100) 2" by (rule py_round_nonneg)
  have "MAPE (evaluate ys ps) = Finite (py_round (mean ?rs * 100) 2)"
    unfolding evaluate_MAPE abs_pct_errors_finite [OF assms(1)] np_mean_finite [OF ne]
    by (rule np_scale_round.simps(1))
  with nn show ?thesis by blast
qed

lemma np_mean_PosInf: "PosInf \<in> set vs \<Longrightarrow> np_mean vs = PosInf"
proof -
  assume p: "PosInf \<in> set vs"
  then have m: "PosInf \<in> set (filter (\<lambda>v. v \<noteq> NaN) vs)" by simp
  from p have "filter (\<lambda>v. v \<noteq> NaN) vs \<noteq> []" by (auto simp: filter_empty_conv)
  with m show ?thesis by (simp add: np_mean_def Let_def)
qed

lemma np_mean_all_NaN: "\<forall>v \<in> set vs. v = NaN \<Longrightarrow> np_mean vs = NaN"
proof -
  assume "\<forall>v \<in> set vs. v = NaN"
  then have "filter (\<lambda>v. v \<noteq> NaN) vs = []" by (simp add: filter_empty_conv)
  then show ?thesis by (simp add: np_mean_def)
qed

lemma finite_values_mem: "r \<in> set (finite_values vs) \<longleftrightarrow> Finite r \<in> set vs"
  by (induction vs rule: finite_values.induct) auto

lemma np_mean_Finite_nonneg:
  assumes "np_mean vs = Finite m" and "\<forall>r. Finite r \<in> set vs \<longrightarrow> 0 \<le> r"
  shows "0 \<le> m"
proof -
  let ?ws = "filter (\<lambda>v. v \<noteq> NaN) vs"
  from assms(1) have m: "m = mean (finite_values ?ws)"
    by (auto simp: np_mean_def Let_def split: if_splits)
  have "\<forall>r \<in> set (finite_values ?ws). 0 \<le> r"
    using assms(2) by (auto simp: finite_values_mem)
  then show ?thesis unfolding m by (rule mean_nonneg)
qed

lemma np_scale_round_Finite_nonneg:
  assumes "np_scale_round v 100 2 = Finite m" and "\<And>r. v = Finite r \<Longrightarrow> 0 \<le> r"
  shows "0 \<le> m"
proof (cases v)
  case (Finite r)
  with assms(2) have "0 \<le> r * 100" by simp
  then have "0 \<le> py_round (r * 100) 2" by (rule py_round_nonneg)
  with assms(1) Finite show ?thesis by simp
qed (use assms(1) in simp_all)

lemma zip_held_out:
  "zip (map snd ho) (map model (map fst ho)) = map (\<lambda>(x, y). (y, model x)) ho"
  by (induction ho) auto

lemma held_out_split:
  "y_test_of xy = map snd (held_out xy)"
  "drop (split_idx (length xy)) (map fst xy) = map fst (held_out xy)"
  by (simp_all add: y_test_of_def held_out_def drop_map)

lemma evaluate_held_out_MAPE:
  "MAPE (evaluate (y_test_of xy) (map model (drop (split_idx (length xy)) (map fst xy))))
     = np_scale_round (np_mean (map (\<lambda>(x, y). abs_pct_error y (model x)) (held_out xy))) 100 2"
  unfolding evaluate_MAPE held_out_split zip_held_out
  by (simp add: comp_def case_prod_unfold)

text \<open>
  C8, as the code has it. For every category that training reports, whatever the number
  of its feature rows, the reported MAPE is a finite number that is not negative when no
  held-out observed demand is zero, and whenever it is finite it is not negative. The
  metric divides by the observed demand without a guard: a held-out row whose observed
  demand is zero and whose prediction is not makes the reported MAPE infinite, and when
  every held-out row has a zero demand and a zero prediction it is \<^verbatim>\<open>NaN\<close>.
\<close>

theorem mape_finite_without_zero_demand:
  assumes "train_demand_forecasting_models fit sample_data = Inr models"
      and "(category, model, perf) \<in> set models"
  shows "(0 \<notin> set (y_test_of (category_xy (create_demand_features sample_data) category))
            \<longrightarrow> (\<exists>m. MAPE perf = Finite m \<and> 0 \<le> m))
       \<and> ((\<exists>(x, y) \<in> set (held_out (category_xy (create_demand_features sample_data) category)).
               y = 0 \<and> model x \<noteq> 0)
            \<longrightarrow> MAPE perf = PosInf)
       \<and> ((\<forall>(x, y) \<in> set (held_out (category_xy (create_demand_features sample_data) category)).
               y = 0 \<and> model x = 0)
            \<longrightarrow> MAPE perf = NaN)
       \<and> (\<forall>m. MAPE perf = Finite m \<longrightarrow> 0 \<le> m)"
proof -
  let ?xy = "category_xy (create_demand_features sample_data) category"
  let ?errs = "map (\<lambda>(x, y). abs_pct_error y (model x)) (held_out ?xy)"
  from assms(1) have "\<forall>(c, t) \<in> set models.
      train_category fit (category_xy (create_demand_features sample_data) c) = Inr t"
    using train_categories_Inr
    unfolding train_demand_forecasting_models_def Let_def by blast
  with assms(2) have "train_category fit ?xy = Inr (model, perf)" by auto
  from train_category_Inr [OF this] have n: "2 \<le> length ?xy"
    and p: "perf = evaluate (y_test_of ?xy) (map model (drop (split_idx (length ?xy)) (map fst ?xy)))"
    by simp_all
  have mape: "MAPE perf = np_scale_round (np_mean ?errs) 100 2"
    unfolding p by (rule evaluate_held_out_MAPE)
  from n have "0 < length ?xy" by linarith
  then have "split_idx (length ?xy) < length ?xy" by (rule split_idx_less)
  then have ne: "y_test_of ?xy \<noteq> []" by (auto simp: y_test_of_def)
  have len: "length (map model (drop (split_idx (length ?xy)) (map fst ?xy))) = length (y_test_of ?xy)"
    by (simp add: y_test_of_def)
  have 1: "\<exists>m. MAPE perf = Finite m \<and> 0 \<le> m" if "0 \<notin> set (y_test_of ?xy)"
    unfolding p by (rule evaluate_mape_finite [OF that len ne])
  have 2: "MAPE perf = PosInf" if "\<exists>(x, y) \<in> set (held_out ?xy). y = 0 \<and> model x \<noteq> 0"
  proof -
    from that obtain x y where xy: "(x, y) \<in> set (held_out ?xy)" "y = 0" "model x \<noteq> 0"
      by auto
    then have "abs_pct_error y (model x) = PosInf" by (simp add: abs_pct_error_def)
    with xy(1) have "PosInf \<in> set ?errs" by force
    then have "np_mean ?errs = PosInf" by (rule np_mean_PosInf)
    then show ?thesis unfolding mape by simp
  qed
  have 3: "MAPE perf = NaN" if "\<forall>(x, y) \<in> set (held_out ?xy). y = 0 \<and> model x = 0"
  proof -
    from that have "\<forall>v \<in> set ?errs. v = NaN" by (auto simp: abs_pct_error_def)
    then have "np_mean ?errs = NaN" by (rule np_mean_all_NaN)
    then show ?thesis unfolding mape by simp
  qed
  have 4: "0 \<le> m" if "MAPE perf = Finite m" for m
  proof -
    have "\<forall>r. Finite r \<in> set ?errs \<longrightarrow> 0 \<le> r"
      by (auto simp: abs_pct_error_def split: if_splits)
    then have "\<And>r. np_mean ?errs = Finite r \<Longrightarrow> 0 \<le> r"
      using np_mean_Finite_nonneg by blast
    with that show ?thesis unfolding mape by (rule np_scale_round_Finite_nonneg)
  qed
  from 1 2 3 4 show ?thesis by blast
qed

lemma models_performance_Inr:
  assumes "models_performance fit sample_data = Inr perfs"
  shows "\<exists>models. train_demand_forecasting_models fit sample_data = Inr models
           \<and> perfs = map (\<lambda>(category, model, perf). (category, perf)) models"
  using assms by (auto simp: models_performance_def split: sum.splits)

lemma short_series_trained:
  "\<exists>models model perf. train_demand_forecasting_models fit_mean short_series = Inr models
      \<and> models = [(''Dairy'', model, perf)]"
proof -
  from models_performance_Inr [OF short_series_performance]
  have "\<exists>models. train_demand_forecasting_models fit_mean short_series = Inr models
      \<and> [(''Dairy'', \<lparr>MAE = 0, RMSE = 0, MAPE = Finite 0\<rparr>)]
           = map (\<lambda>(category, model, perf). (category, perf)) models" .
  then obtain models where
    m: "train_demand_forecasting_models fit_mean short_series = Inr models"
    and p: "[(''Dairy'', \<lparr>MAE = 0, RMSE = 0, MAPE = Finite 0\<rparr>)]
              = map (\<lambda>(category, model, perf). (category, perf)) models"
    by (elim exE conjE) (rule that)
  from p have "length models = 1" by (metis length_map length_Cons list.size(3) One_nat_def)
  then obtain x where x: "models = [x]"
    by (cases models) simp_all
  obtain c model perf where "x = (c, model, perf)" by (cases x)
  with p x have "models = [(''Dairy'', model, perf)]" by simp
  with m show ?thesis by (intro exI conjI)
qed

lemma short_series_rows:
  "length (category_xy (create_demand_features short_series) ''Dairy'') = 3"
proof -
  have "length (map snd (category_xy (create_demand_features short_series) ''Dairy'')) = 3"
    unfolding short_series_y by simp
  then show ?thesis by simp
qed

theorem training_skips_no_category_witness:
  "(\<exists>models. train_demand_forecasting_models fit_mean short_series = Inr models
       \<and> map fst models = [''Dairy''])
   \<and> length (category_xy (create_demand_features short_series) ''Dairy'') = 3
   \<and> length (category_xy (create_demand_features single_observation) ''Dairy'') = 0
   \<and> train_demand_forecasting_models fit_mean single_observation = Inl ValueError"
proof -
  from short_series_trained obtain models where
    m: "train_demand_forecasting_models fit_mean short_series = Inr models"
    by (elim exE conjE) (rule that)
  have u: "unique (map d_category short_series) = [''Dairy'']"
    by (simp add: unique_def short_series_def)
  from training_skips_no_category [THEN conjunct1, rule_format, OF m]
  have 1: "map fst models = [''Dairy'']" unfolding u .
  have c: "''Dairy'' \<in> set (map d_category single_observation)"
    by (simp add: single_observation_def)
  have 3: "length (category_xy (create_demand_features single_observation) ''Dairy'') = 0"
    by (simp add: single_observation_xy)
  then have lt: "length (category_xy (create_demand_features single_observation) ''Dairy'') < 2"
    by simp
  from training_skips_no_category [THEN conjunct2, rule_format, OF c lt]
  have e: "train_demand_forecasting_models fit_mean single_observation = Inl ValueError" .
  from m 1 have "\<exists>models. train_demand_forecasting_models fit_mean short_series = Inr models
       \<and> map fst models = [''Dairy'']" by (intro exI conjI)
  with short_series_rows 3 e show ?thesis by (intro conjI)
qed

text \<open>
  A category with three feature rows, fewer than four, is trained on two of them and
  evaluated on the third; it is reported with its metrics.
\<close>

theorem training_skips_short_category_counterexample:
  "length (category_xy (create_demand_features short_series) ''Dairy'') = 3
   \<and> models_performance fit_mean short_series
        = Inr [(''Dairy'', \<lparr>MAE = 0, RMSE = 0, MAPE = Finite 0\<rparr>)]"
  using short_series_rows short_series_performance by (rule conjI)

lemma trained_single_category_fit_mean:
  assumes "unique (map d_category data) = [c]"
      and "map snd (category_xy (create_demand_features data) c) = ys"
      and "2 \<le> length ys"
  shows "\<exists>perf. train_demand_forecasting_models fit_mean data =
     Inr [(c, (\<lambda>x. mean (take (split_idx (length ys)) ys)), perf)]"
proof -
  let ?xy = "category_xy (create_demand_features data) c"
  have l: "length ?xy = length ys" using assms(2) by (metis length_map)
  with assms(3) have "2 \<le> length ?xy" by simp
  from train_category_fit_mean [OF this] show ?thesis
    unfolding train_demand_forecasting_models_def Let_def map_x_category assms(1)
    by (simp add: assms(2) l)
qed

lemma sold_out_rows:
  "length (category_xy (create_demand_features sold_out) ''Dairy'') = 5"
proof -
  have "length (map snd (category_xy (create_demand_features sold_out) ''Dairy'')) = 5"
    unfolding sold_out_y by simp
  then show ?thesis by simp
qed

lemma sold_out_held_out:
  "\<exists>x. held_out (category_xy (create_demand_features sold_out) ''Dairy'') = [(x, 0)]"
proof -
  let ?ho = "held_out (category_xy (create_demand_features sold_out) ''Dairy'')"
  have k: "split_idx 5 = 4" by (simp add: split_idx_def)
  have "map snd ?ho = drop 4 (map snd (category_xy (create_demand_features sold_out) ''Dairy''))"
    by (simp add: held_out_def sold_out_rows k drop_map)
  then have s: "map snd ?ho = [0]" unfolding sold_out_y by simp
  then have "length ?ho = 1" by (metis length_map length_Cons list.size(3) One_nat_def)
  then obtain p where p: "?ho = [p]" by (cases ?ho) simp_all
  with s have "snd p = 0" by simp
  then have "p = (fst p, 0)" by (metis prod.collapse)
  with p show ?thesis by metis
qed

theorem mape_finite_without_zero_demand_witness:
  "0 \<notin> set (y_test_of (category_xy (create_demand_features short_series) ''Dairy''))
   \<and> (\<exists>models model perf m.
         train_demand_forecasting_models fit_mean short_series = Inr models
       \<and> (''Dairy'', model, perf) \<in> set models
       \<and> MAPE perf = Finite m \<and> 0 \<le> m)
   \<and> (\<exists>models model perf.
         train_demand_forecasting_models fit_mean sold_out = Inr models
       \<and> (''Dairy'', model, perf) \<in> set models
       \<and> (\<exists>(x, y) \<in> set (held_out (category_xy (create_demand_features sold_out) ''Dairy'')).
             y = 0 \<and> model x \<noteq> 0)
       \<and> MAPE perf = PosInf)"
proof -
  have k: "split_idx 3 = 2" by (simp add: split_idx_def)
  have z: "0 \<notin> set (y_test_of (category_xy (create_demand_features short_series) ''Dairy''))"
    unfolding y_test_of_def short_series_rows short_series_y by (simp add: k)
  from short_series_trained obtain models model perf where
    m: "train_demand_forecasting_models fit_mean short_series = Inr models"
    and ms: "models = [(''Dairy'', model, perf)]"
    by (elim exE conjE) (rule that)
  from ms have mem: "(''Dairy'', model, perf) \<in> set models" by simp
  from mape_finite_without_zero_demand [OF m mem, THEN conjunct1, rule_format, OF z]
  obtain v where v: "MAPE perf = Finite v" "0 \<le> v"
    by (elim exE conjE) (rule that)
  from m mem v have 1: "\<exists>models model perf m.
         train_demand_forecasting_models fit_mean short_series = Inr models
       \<and> (''Dairy'', model, perf) \<in> set models
       \<and> MAPE perf = Finite m \<and> 0 \<le> m" by (intro exI conjI)
  have u: "unique (map d_category sold_out) = [''Dairy'']"
    by (simp add: unique_def sold_out_def)
  have l: "2 \<le> length [10, 10, 10, 10, 0 :: real]" by simp
  let ?model = "\<lambda>x :: real list. mean (take (split_idx (length [10, 10, 10, 10, 0 :: real]))
                     [10, 10, 10, 10, 0])"
  from trained_single_category_fit_mean [OF u sold_out_y l] obtain perf' where
    m': "train_demand_forecasting_models fit_mean sold_out = Inr [(''Dairy'', ?model, perf')]"
    by (elim exE) (rule that)
  have mem': "(''Dairy'', ?model, perf') \<in> set [(''Dairy'', ?model, perf')]" by simp
  have k5: "split_idx 5 = 4" by (simp add: split_idx_def)
  have len5: "length [10, 10, 10, 10, 0 :: real] = 5" by simp
  have mv: "?model x = 10" for x :: "real list"
    unfolding len5 k5 by (simp add: mean_def)
  from sold_out_held_out obtain x0 where
    ho: "held_out (category_xy (create_demand_features sold_out) ''Dairy'') = [(x0, 0)]"
    by (elim exE) (rule that)
  have bex: "\<exists>(x, y) \<in> set (held_out (category_xy (create_demand_features sold_out) ''Dairy'')).
             y = 0 \<and> ?model x \<noteq> 0"
    unfolding ho using mv by simp
  from mape_finite_without_zero_demand [OF m' mem', THEN conjunct2, THEN conjunct1, rule_format,
      OF bex]
  have inf: "MAPE perf' = PosInf" .
  from m' mem' bex inf have 2: "\<exists>models model perf.
         train_demand_forecasting_models fit_mean sold_out = Inr models
       \<and> (''Dairy'', model, perf) \<in> set models
       \<and> (\<exists>(x, y) \<in> set (held_out (category_xy (create_demand_features sold_out) ''Dairy'')).
             y = 0 \<and> model x \<noteq> 0)
       \<and> MAPE perf = PosInf" by (intro exI conjI)
  from z 1 2 show ?thesis by (intro conjI)
qed

text \<open>
  Five feature rows, four for training and one held out, whose observed demand is zero:
  the prediction is \<open>10\<close>, the quotient \<open>10 / 0\<close> is infinite, and so is the reported MAPE.
\<close>

theorem mape_zero_demand_counterexample:
  "length (category_xy (create_demand_features sold_out) ''Dairy'') = 5
   \<and> y_test_of (category_xy (create_demand_features sold_out) ''Dairy'') = [0]
   \<and> models_performance fit_mean sold_out
        = Inr [(''Dairy'', \<lparr>MAE = 10, RMSE = 10, MAPE = PosInf\<rparr>)]"
proof -
  have k: "split_idx 5 = 4" by (simp add: split_idx_def)
  have "length (map snd (category_xy (create_demand_features sold_out) ''Dairy'')) = 5"
    unfolding sold_out_y by simp
  then have l: "length (category_xy (create_demand_features sold_out) ''Dairy'') = 5"
    by simp
  have "y_test_of (category_xy (create_demand_features sold_out) ''Dairy'') = [0]"
    unfolding y_test_of_def l sold_out_y by (simp add: k)
  with l sold_out_performance show ?thesis by (intro conjI)
qed

end
